theory Spec2Isabelle
  imports Complex_Main "HOL-Library.Sublist"
begin

section \<open>Strings of the source language\<close>

text \<open>
  The program is TypeScript. A string of the source is modelled as a \<^typ>\<open>string\<close>
  whose characters are the code units below 256 (ASCII and Latin-1), so the strings with
  a lone surrogate, on which \<open>encodeURIComponent\<close> throws, are outside the model.
\<close>

text \<open>The white space that \<open>String.prototype.trim\<close> and \<open>\s\<close> recognise, below 256.\<close>

definition isWhiteSpace :: "char \<Rightarrow> bool" where
  "isWhiteSpace c \<longleftrightarrow>
     c \<in> {CHR 0x09, CHR 0x0A, CHR 0x0B, CHR 0x0C, CHR 0x0D, CHR 0x20, CHR 0xA0}"

definition trim :: "string \<Rightarrow> string" where
  "trim s = rev (dropWhile isWhiteSpace (rev (dropWhile isWhiteSpace s)))"

text \<open>\<open>s.includes(t)\<close>: \<open>t\<close> occurs in \<open>s\<close> as a contiguous substring.\<close>

definition includesStr :: "string \<Rightarrow> string \<Rightarrow> bool" where
  "includesStr s t = sublist t s"

text \<open>A string is truthy when it is present and not empty.\<close>

fun truthy :: "string option \<Rightarrow> bool" where
  "truthy None = False"
| "truthy (Some s) = (s \<noteq> [])"

text \<open>\<open>x || d\<close> on an optional string.\<close>

fun orElse :: "string option \<Rightarrow> string \<Rightarrow> string" where
  "orElse None d = d"
| "orElse (Some s) d = (if s = [] then d else s)"

text \<open>
  \<open>[...new Set(xs)]\<close>: the elements in the order of their first occurrence. The
  accumulator is the content of the set, in insertion order.
\<close>

fun setAddAll :: "'a list \<Rightarrow> 'a list \<Rightarrow> 'a list" where
  "setAddAll acc [] = acc"
| "setAddAll acc (x # xs) = setAddAll (if x \<in> set acc then acc else acc @ [x]) xs"

definition newSet :: "'a list \<Rightarrow> 'a list" where
  "newSet xs = setAddAll [] xs"

section \<open>Numbers of the source language\<close>

text \<open>
  A number of the source is a double-precision floating-point number. The finite
  doubles are the reals \<open>m * 2 ^ e\<close> with a significand \<open>m\<close> of at most 53 bits, and
  every arithmetic operation of the source is the exact operation on the reals
  followed by the rounding to the nearest double, a tie going to the even significand.
  The infinities, NaN and the negative zero are outside the model, except where the
  source produces NaN from a parse (\<open>None\<close> below) or divides by zero (written out in
  \<open>calculateMarketAnalysis\<close>); a result beyond the largest double, which is infinite in
  the source, is rounded with the largest exponent here.
\<close>

definition pow2 :: "int \<Rightarrow> real" where
  "pow2 e = (if 0 \<le> e then 2 ^ nat e else 1 / 2 ^ nat (- e))"

text \<open>
  The exponent \<open>e\<close> of a magnitude \<open>a\<close>, with \<open>2 ^ e \<le> a < 2 ^ (e + 1)\<close>: searched upwards
  from the smallest exponent of a normal double, -1022 (below it the doubles are
  subnormal and keep that exponent), to the largest, 1023.
\<close>

fun findExponent :: "nat \<Rightarrow> int \<Rightarrow> real \<Rightarrow> int" where
  "findExponent 0 e a = e"
| "findExponent (Suc n) e a = (if a < pow2 (e + 1) then e else findExponent n (e + 1) a)"

definition exponent :: "real \<Rightarrow> int" where
  "exponent x = findExponent 2045 (- 1022) \<bar>x\<bar>"

text \<open>The nearest integer, a tie going to the even one.\<close>

definition roundHalfEven :: "real \<Rightarrow> int" where
  "roundHalfEven y =
     (let f = \<lfloor>y\<rfloor>
      in if y - of_int f < 1 / 2 then f
         else if 1 / 2 < y - of_int f then f + 1
         else if even f then f else f + 1)"

text \<open>
  The rounding of a real to double precision: the nearest multiple of the unit in the
  last place, \<open>2 ^ (e - 52)\<close>.
\<close>

definition toDouble :: "real \<Rightarrow> real" where
  "toDouble x = of_int (roundHalfEven (x / pow2 (exponent x - 52))) * pow2 (exponent x - 52)"

text \<open>
  The doubles are the values of the rounding: \<open>val\<close> is the real a double stands for,
  and \<open>dbl x\<close> the double nearest to \<open>x\<close>, which is what a decimal literal \<open>x\<close> of the
  source denotes.
\<close>

typedef double = "range toDouble"
  morphisms val Abs_double
  by blast

definition dbl :: "real \<Rightarrow> double" where
  "dbl x = Abs_double (toDouble x)"

text \<open>The order of the doubles is the order of the reals they stand for.\<close>

instantiation double :: "{zero, equal, linorder}"
begin

definition zero_double :: double where
  "zero_double = dbl 0"

definition equal_double :: "double \<Rightarrow> double \<Rightarrow> bool" where
  "equal_double a b \<longleftrightarrow> val a = val b"

definition less_eq_double :: "double \<Rightarrow> double \<Rightarrow> bool" where
  "less_eq_double a b \<longleftrightarrow> val a \<le> val b"

definition less_double :: "double \<Rightarrow> double \<Rightarrow> bool" where
  "less_double a b \<longleftrightarrow> val a < val b"

instance
  by standard (auto simp: equal_double_def less_eq_double_def less_double_def val_inject)

end

text \<open>The operations \<open>+\<close>, \<open>-\<close>, \<open>*\<close> and \<open>/\<close> of the source (the divisor is not zero).\<close>

definition fadd :: "double \<Rightarrow> double \<Rightarrow> double" where
  "fadd a b = dbl (val a + val b)"

definition fsub :: "double \<Rightarrow> double \<Rightarrow> double" where
  "fsub a b = dbl (val a - val b)"

definition fmul :: "double \<Rightarrow> double \<Rightarrow> double" where
  "fmul a b = dbl (val a * val b)"

definition fdiv :: "double \<Rightarrow> double \<Rightarrow> double" where
  "fdiv a b = dbl (val a / val b)"

text \<open>
  \<open>Math.round\<close> gives the nearest integer, a half going towards plus infinity, and
  \<open>Math.round(x * 100) / 100\<close> is the rounding to 2 decimals of the source.
\<close>

definition Math_round :: "double \<Rightarrow> double" where
  "Math_round x = dbl (of_int \<lfloor>val x + 1 / 2\<rfloor>)"

definition round2 :: "double \<Rightarrow> double" where
  "round2 x = fdiv (Math_round (fmul x (dbl 100))) (dbl 100)"

section \<open>Search term generation (market-analysis/index.ts)\<close>

record MarketAnalysisRequest =
  itemName :: string
  manufacturer :: "string option"
  pattern :: "string option"
  category :: string

definition categoryName :: "string \<Rightarrow> string" where
  "categoryName c = (if c = ''milk_glass'' then ''milk glass'' else ''jadite'')"

definition generateSearchTerms :: "MarketAnalysisRequest \<Rightarrow> string list" where
  "generateSearchTerms request =
    (let cn = categoryName (category request);
         nm = itemName request;
         combinedTerms =
           [trim (nm @ '' '' @ cn),
            trim (cn @ '' '' @ nm),
            trim (''vintage '' @ cn @ '' '' @ nm)];
         combinedTerms =
           (if truthy (manufacturer request)
            then (let m = the (manufacturer request) in
                  combinedTerms @
                  [trim (m @ '' '' @ cn),
                   trim (m @ '' '' @ nm @ '' '' @ cn),
                   trim (cn @ '' '' @ m),
                   trim (m @ '' '' @ nm),
                   trim (nm @ '' '' @ m)])
            else combinedTerms);
         combinedTerms =
           (if truthy (pattern request)
            then (let p = the (pattern request) in
                  combinedTerms @
                  [trim (p @ '' '' @ cn),
                   trim (cn @ '' '' @ p)])
            else combinedTerms)
     in newSet (filter (\<lambda>t. t \<noteq> []) combinedTerms))"

section \<open>Market analysis (market-analysis/index.ts)\<close>

record eBayItem =
  title :: string
  price :: double
  soldDate :: string
  condition :: string
  url :: string
  imageUrl :: "string option"

datatype confidence = high | medium | low

record priceRange =
  range_min :: double
  range_max :: double

record MarketAnalysis =
  averagePrice :: double
  recentSales :: "eBayItem list"
  priceRange :: priceRange
  confidence :: confidence

text \<open>
  \<open>(maxPrice - minPrice) / mostRecentPrice < 0.3\<close>. In the source a division by zero
  gives an infinity or NaN, neither of which is below 0.3; in HOL it would give 0, so
  the case is written out.
\<close>

definition variationBelow :: "double \<Rightarrow> double \<Rightarrow> double \<Rightarrow> bool" where
  "variationBelow maxPrice minPrice mostRecentPrice \<longleftrightarrow>
     mostRecentPrice \<noteq> 0 \<and> fdiv (fsub maxPrice minPrice) mostRecentPrice < dbl (3 / 10)"

fun calculateMarketAnalysis :: "eBayItem list \<Rightarrow> MarketAnalysis" where
  "calculateMarketAnalysis [] =
     \<lparr>averagePrice = 0, recentSales = [],
      priceRange = \<lparr>range_min = 0, range_max = 0\<rparr>, confidence = low\<rparr>"
| "calculateMarketAnalysis (s # rest) =
     (let soldItems = s # rest;
          mostRecentPrice = price s;
          minPrice = fold min (map price rest) (price s);
          maxPrice = fold max (map price rest) (price s);
          conf = (if length soldItems \<ge> 5
                  then (if variationBelow maxPrice minPrice mostRecentPrice
                        then high else medium)
                  else if length soldItems \<ge> 3 then medium
                  else low)
      in \<lparr>averagePrice = round2 mostRecentPrice,
          recentSales = take 10 soldItems,
          priceRange = \<lparr>range_min = round2 minPrice, range_max = round2 maxPrice\<rparr>,
          confidence = conf\<rparr>)"

text \<open>
  The arithmetic mean of a list of prices, taken exactly, for comparison with
  \<open>averagePrice\<close>.
\<close>

definition arithmeticMean :: "double list \<Rightarrow> real" where
  "arithmeticMean ps = sum_list (map val ps) / of_nat (length ps)"

section \<open>More string functions of the source language\<close>

text \<open>\<open>String.prototype.toLowerCase\<close> on the code units below 256.\<close>

definition toLowerChar :: "char \<Rightarrow> char" where
  "toLowerChar c =
     (let n = (of_char c :: nat)
      in if (65 \<le> n \<and> n \<le> 90) \<or> (192 \<le> n \<and> n \<le> 222 \<and> n \<noteq> 215)
         then char_of (n + 32) else c)"

definition toLowerCase :: "string \<Rightarrow> string" where
  "toLowerCase s = map toLowerChar s"

text \<open>
  \<open>encodeURIComponent\<close>: the unreserved characters stay, every other character is
  written as the percent-escaped bytes of its UTF-8 encoding (one byte below 128, two
  bytes from 128 to 255).
\<close>

definition hexDigit :: "nat \<Rightarrow> char" where
  "hexDigit n = ''0123456789ABCDEF'' ! (n mod 16)"

definition percentByte :: "nat \<Rightarrow> string" where
  "percentByte b = [CHR ''%'', hexDigit (b div 16), hexDigit b]"

definition uriUnreserved :: "char \<Rightarrow> bool" where
  "uriUnreserved c =
     (let n = (of_char c :: nat)
      in (65 \<le> n \<and> n \<le> 90) \<or> (97 \<le> n \<and> n \<le> 122) \<or> (48 \<le> n \<and> n \<le> 57)
         \<or> c \<in> set ''-_.!~*'' \<or> c = CHR 0x27 \<or> c \<in> set ''()'')"

definition encodeChar :: "char \<Rightarrow> string" where
  "encodeChar c =
     (let n = (of_char c :: nat)
      in if uriUnreserved c then [c]
         else if n < 128 then percentByte n
         else percentByte (192 + n div 64) @ percentByte (128 + n mod 64))"

definition encodeURIComponent :: "string \<Rightarrow> string" where
  "encodeURIComponent s = concat (map encodeChar s)"

text \<open>\<open>s.replace(/\s+/g, ' ')\<close>: every run of white space becomes one space.\<close>

function collapseSpaces :: "string \<Rightarrow> string" where
  "collapseSpaces [] = []"
| "collapseSpaces (c # cs) =
     (if isWhiteSpace c then CHR '' '' # collapseSpaces (dropWhile isWhiteSpace cs)
      else c # collapseSpaces cs)"
  by pat_completeness auto
termination
  by (relation "measure length") (auto simp: length_dropWhile_le less_Suc_eq_le)

section \<open>The environment of a run\<close>

text \<open>
  What the functions read from outside: the configured credential, the clock, the
  successive results of \<open>Math.random()\<close>, and the library functions whose text is not
  part of the repository (\<open>parseFloat\<close>, with \<open>None\<close> for NaN and no infinite
  result; \<open>new Date(t).toISOString()\<close> on a time in milliseconds; the conversion of a
  number to a string in a template).
  The clock is read as one value for the whole run. Console output and the pause between
  calls are not modelled.
\<close>

record env =
  EBAY_APP_ID :: "string option"
  parseFloat :: "string \<Rightarrow> double option"
  toISOString :: "double \<Rightarrow> string"
  numberToString :: "double \<Rightarrow> string"
  dateNow :: double
  random :: "nat \<Rightarrow> double"

text \<open>\<open>r * n * 24 * 60 * 60 * 1000\<close>, multiplied from the left as the source does.\<close>

definition days :: "double \<Rightarrow> real \<Rightarrow> double" where
  "days r n = fmul (fmul (fmul (fmul (fmul r (dbl n)) (dbl 24)) (dbl 60)) (dbl 60)) (dbl 1000)"

text \<open>
  One item of the marketplace's answer, after the defensive unwrapping
  \<open>item.f?.[0]\<close> of each field (\<open>None\<close> for undefined).
\<close>

record rawItem =
  rTitle :: "string option"
  rSellingState :: "string option"
  rCurrentPrice :: "string option"
  rEndTime :: "string option"
  rCondition :: "string option"
  rViewItemURL :: "string option"
  rGalleryURL :: "string option"

text \<open>
  The body of a response: \<open>Unparsable\<close> when \<open>response.json()\<close> rejects, \<open>Malformed\<close>
  for a value on which the property access throws, \<open>NoEnvelope\<close> when the response
  array is missing, and otherwise the acknowledgement \<open>ack?.[0]\<close> with the item array
  \<open>searchResult?.[0]?.item\<close>; an entry \<open>None\<close> of the array is a null entry, on which
  the property access throws.
\<close>

datatype payload =
    Unparsable
  | Malformed
  | NoEnvelope
  | Envelope "string option" "rawItem option list option"

datatype fetchOutcome = NetworkError | HttpResponse nat payload

definition responseOk :: "nat \<Rightarrow> bool" where
  "responseOk st \<longleftrightarrow> 200 \<le> st \<and> st \<le> 299"

text \<open>The k-th call of \<open>fetch\<close> in a run, with its URL.\<close>

type_synonym fetch = "nat \<Rightarrow> string \<Rightarrow> fetchOutcome"

text \<open>\<open>x || undefined\<close> on an optional string.\<close>

fun orUndefined :: "string option \<Rightarrow> string option" where
  "orUndefined None = None"
| "orUndefined (Some s) = (if s = [] then None else Some s)"

section \<open>Completed listings (market-analysis/index.ts)\<close>

definition getMockData :: "env \<Rightarrow> string list \<Rightarrow> eBayItem list" where
  "getMockData w searchTerms =
    (let generateEbaySearchUrl = (\<lambda>t.
           ''https://www.ebay.com/sch/i.html?_nkw='' @
           encodeURIComponent (trim (collapseSpaces t)) @
           ''&_sacat=0&LH_Sold=1&LH_Complete=1&_sop=13&rt=nc'');
         primaryTerm = (case searchTerms of [] \<Rightarrow> ''collectible''
                        | t # _ \<Rightarrow> if t = [] then ''collectible'' else t);
         mf = orElse (find (\<lambda>term. \<exists>brand \<in> set [''fenton'', ''fire-king'',
                        ''anchor hocking'', ''pyrex'', ''corning''].
                        includesStr (toLowerCase term) brand) searchTerms) [];
         mockSoldItems =
           [\<lparr>title = mf @ '' '' @ primaryTerm @ '' - Vintage Collectible'',
             price = round2 (fadd (fmul (random w 0) (dbl 50)) (dbl 50)),
             soldDate = toISOString w (fsub (dateNow w) (days (random w 1) 30)),
             condition = ''Excellent'',
             url = generateEbaySearchUrl (mf @ '' '' @ primaryTerm @ '' vintage''),
             imageUrl = None\<rparr>,
            \<lparr>title = trim (''Vintage '' @ primaryTerm @ '' '' @
                       (if mf \<noteq> [] then ''by '' @ mf else [])),
             price = round2 (fadd (fmul (random w 2) (dbl 40)) (dbl 40)),
             soldDate = toISOString w (fsub (dateNow w) (days (random w 3) 20)),
             condition = ''Very Good'',
             url = generateEbaySearchUrl (''vintage '' @ primaryTerm @ '' '' @ mf),
             imageUrl = None\<rparr>,
            \<lparr>title = trim (primaryTerm @ '' Collectible Glass '' @
                       (if mf \<noteq> [] then ''- '' @ mf else [])),
             price = round2 (fadd (fmul (random w 4) (dbl 60)) (dbl 60)),
             soldDate = toISOString w (fsub (dateNow w) (days (random w 5) 15)),
             condition = ''Good'',
             url = generateEbaySearchUrl (primaryTerm @ '' collectible glass '' @ mf),
             imageUrl = None\<rparr>];
         relevantItems = filter (\<lambda>item. \<exists>term \<in> set searchTerms.
                           includesStr (toLowerCase (title item)) (toLowerCase term))
                         mockSoldItems
     in if length relevantItems > 0 then relevantItems else take 3 mockSoldItems)"

definition completedUrl :: "string \<Rightarrow> string \<Rightarrow> string" where
  "completedUrl appId searchTerm =
     ''https://svcs.ebay.com/services/search/FindingService/v1'' @
     ''?OPERATION-NAME=findCompletedItems'' @
     ''&SERVICE-VERSION=1.0.0'' @
     ''&SECURITY-APPNAME='' @ appId @
     ''&RESPONSE-DATA-FORMAT=JSON'' @
     ''&REST-PAYLOAD'' @
     ''&keywords='' @ encodeURIComponent searchTerm @
     ''&itemFilter(0).name=SoldItemsOnly'' @
     ''&itemFilter(0).value=true'' @
     ''&itemFilter(1).name=ListingType'' @
     ''&itemFilter(1).value(0)=Auction'' @
     ''&itemFilter(1).value(1)=FixedPrice'' @
     ''&sortOrder=EndTimeSoonest'' @
     ''&paginationInput.entriesPerPage=20''"

text \<open>
  The loop over the items of one answer. The first component tells whether the loop
  threw (at a null entry); the results pushed before that stay in \<open>results\<close>.
\<close>

fun soldItemsLoop :: "env \<Rightarrow> rawItem option list \<Rightarrow> eBayItem list \<Rightarrow> bool \<times> eBayItem list" where
  "soldItemsLoop w [] results = (False, results)"
| "soldItemsLoop w (None # items) results = (True, results)"
| "soldItemsLoop w (Some item # items) results =
     (if rSellingState item = Some ''EndedWithSales''
      then (case parseFloat w (orElse (rCurrentPrice item) ''0'') of
              None \<Rightarrow> soldItemsLoop w items results
            | Some p \<Rightarrow>
                (let soldItem =
                       \<lparr>title = orElse (rTitle item) ''Unknown Item'',
                        price = p,
                        soldDate = orElse (rEndTime item) (toISOString w (dateNow w)),
                        condition = orElse (rCondition item) ''Unknown'',
                        url = orElse (rViewItemURL item) ''#'',
                        imageUrl = orUndefined (rGalleryURL item)\<rparr>
                 in if price soldItem > 0
                    then soldItemsLoop w items (results @ [soldItem])
                    else soldItemsLoop w items results))
      else soldItemsLoop w items results)"

text \<open>
  The loop over the primary search terms: \<open>k\<close> counts the calls, \<open>fetched\<close> collects
  the URLs requested so far. A failed request and an exception inside the inner
  \<open>try\<close> both go on with the next term.
\<close>

fun searchLoop ::
  "env \<Rightarrow> fetch \<Rightarrow> string \<Rightarrow> nat \<Rightarrow> string list \<Rightarrow> eBayItem list \<Rightarrow> string list
   \<Rightarrow> eBayItem list \<times> string list" where
  "searchLoop w f appId k [] results fetched = (results, fetched)"
| "searchLoop w f appId k (searchTerm # terms) results fetched =
     (let apiUrl = completedUrl appId searchTerm;
          fetched = fetched @ [apiUrl];
          results =
            (case f k apiUrl of
               NetworkError \<Rightarrow> results
             | HttpResponse st pl \<Rightarrow>
                 if \<not> responseOk st then results
                 else (case pl of
                         Unparsable \<Rightarrow> results
                       | Malformed \<Rightarrow> results
                       | NoEnvelope \<Rightarrow> results
                       | Envelope ack items \<Rightarrow>
                           (case items of
                              None \<Rightarrow> results
                            | Some its \<Rightarrow>
                                if ack = Some ''Success''
                                then snd (soldItemsLoop w its results)
                                else results)))
      in searchLoop w f appId (Suc k) terms results fetched)"

text \<open>The result and the URLs that were requested, in order.\<close>

definition searcheBaySoldListings ::
  "env \<Rightarrow> fetch \<Rightarrow> string list \<Rightarrow> eBayItem list \<times> string list" where
  "searcheBaySoldListings w f searchTerms =
     (if \<not> truthy (EBAY_APP_ID w) then (getMockData w searchTerms, [])
      else (let primarySearchTerms = take 3 searchTerms;
                (results, fetched) =
                  searchLoop w f (the (EBAY_APP_ID w)) 0 primarySearchTerms [] []
            in (if length results > 0 then take 10 results
                else getMockData w searchTerms, fetched)))"

section \<open>Active listings and the wish-list monitor (ebay-monitor)\<close>

record EbayListing =
  lTitle :: string
  lPrice :: double
  lUrl :: string
  lImageUrl :: "string option"
  lEndTime :: string
  lCondition :: "string option"

text \<open>A number is truthy when it is present and not zero.\<close>

fun truthyNum :: "double option \<Rightarrow> bool" where
  "truthyNum None = False"
| "truthyNum (Some x) = (x \<noteq> 0)"

definition getMockEbayData :: "env \<Rightarrow> string \<Rightarrow> double option \<Rightarrow> EbayListing list" where
  "getMockEbayData w searchTerm maxPrice =
    (let basePrice = (if truthyNum maxPrice
                      then min (fmul (the maxPrice) (dbl (8 / 10))) (dbl 50) else dbl 50)
     in filter (\<lambda>item. \<not> truthyNum maxPrice \<or> lPrice item \<le> the maxPrice)
          [\<lparr>lTitle = searchTerm @ '' - Vintage Collectible'',
            lPrice = round2 (fadd (fmul (random w 0) basePrice) (fmul basePrice (dbl (5 / 10)))),
            lUrl = ''https://www.ebay.com/sch/i.html?_nkw='' @ encodeURIComponent searchTerm,
            lImageUrl = None,
            lEndTime = toISOString w (fadd (dateNow w) (days (random w 1) 7)),
            lCondition = Some ''Very Good''\<rparr>,
           \<lparr>lTitle = ''Rare '' @ searchTerm @ '' Collection Item'',
            lPrice = round2 (fadd (fmul (random w 2) basePrice) (fmul basePrice (dbl (3 / 10)))),
            lUrl = ''https://www.ebay.com/sch/i.html?_nkw='' @ encodeURIComponent searchTerm,
            lImageUrl = None,
            lEndTime = toISOString w (fadd (dateNow w) (days (random w 3) 5)),
            lCondition = Some ''Good''\<rparr>])"

definition activeUrl :: "env \<Rightarrow> string \<Rightarrow> string \<Rightarrow> double option \<Rightarrow> string" where
  "activeUrl w appId searchTerm maxPrice =
     ''https://svcs.ebay.com/services/search/FindingService/v1'' @
     ''?OPERATION-NAME=findItemsByKeywords'' @
     ''&SERVICE-VERSION=1.0.0'' @
     ''&SECURITY-APPNAME='' @ appId @
     ''&RESPONSE-DATA-FORMAT=JSON'' @
     ''&REST-PAYLOAD'' @
     ''&keywords='' @ encodeURIComponent searchTerm @
     ''&itemFilter(0).name=ListingType'' @
     ''&itemFilter(0).value(0)=Auction'' @
     ''&itemFilter(0).value(1)=FixedPrice'' @
     ''&sortOrder=StartTimeNewest'' @
     ''&paginationInput.entriesPerPage=20'' @
     (if truthyNum maxPrice
      then ''&itemFilter(1).name=MaxPrice'' @
           ''&itemFilter(1).value='' @ numberToString w (the maxPrice) @
           ''&itemFilter(1).paramName=Currency'' @
           ''&itemFilter(1).paramValue=USD''
      else [])"

text \<open>The loop over the items of the answer; \<open>None\<close> when it throws (at a null entry).\<close>

fun listingsLoop :: "env \<Rightarrow> rawItem option list \<Rightarrow> EbayListing list \<Rightarrow> EbayListing list option" where
  "listingsLoop w [] listings = Some listings"
| "listingsLoop w (None # items) listings = None"
| "listingsLoop w (Some item # items) listings =
     (case parseFloat w (orElse (rCurrentPrice item) ''0'') of
        None \<Rightarrow> listingsLoop w items listings
      | Some p \<Rightarrow>
          (let listing =
                 \<lparr>lTitle = orElse (rTitle item) ''Unknown Item'',
                  lPrice = p,
                  lUrl = orElse (rViewItemURL item) ''#'',
                  lImageUrl = orUndefined (rGalleryURL item),
                  lEndTime = orElse (rEndTime item) (toISOString w (dateNow w)),
                  lCondition = orUndefined (rCondition item)\<rparr>
           in if lPrice listing > 0
              then listingsLoop w items (listings @ [listing])
              else listingsLoop w items listings))"

text \<open>
  The body of the \<open>try\<close> block of \<open>searchEbayListings\<close>: \<open>Inl ()\<close> when it throws,
  otherwise what it returns.
\<close>

definition searchEbayListingsTry ::
  "env \<Rightarrow> fetch \<Rightarrow> string \<Rightarrow> double option \<Rightarrow> unit + EbayListing list" where
  "searchEbayListingsTry w f searchTerm maxPrice =
     (if \<not> truthy (EBAY_APP_ID w) then Inr (getMockEbayData w searchTerm maxPrice)
      else (case f 0 (activeUrl w (the (EBAY_APP_ID w)) searchTerm maxPrice) of
              NetworkError \<Rightarrow> Inl ()
            | HttpResponse st pl \<Rightarrow>
                if \<not> responseOk st then Inr (getMockEbayData w searchTerm maxPrice)
                else (case pl of
                        Unparsable \<Rightarrow> Inl ()
                      | Malformed \<Rightarrow> Inl ()
                      | NoEnvelope \<Rightarrow> Inr (getMockEbayData w searchTerm maxPrice)
                      | Envelope ack items \<Rightarrow>
                          (case items of
                             None \<Rightarrow> Inr (getMockEbayData w searchTerm maxPrice)
                           | Some its \<Rightarrow>
                               if ack = Some ''Success''
                               then (case listingsLoop w its [] of
                                       None \<Rightarrow> Inl ()
                                     | Some listings \<Rightarrow> Inr listings)
                               else Inr (getMockEbayData w searchTerm maxPrice)))))"

definition searchEbayListings ::
  "env \<Rightarrow> fetch \<Rightarrow> string \<Rightarrow> double option \<Rightarrow> EbayListing list" where
  "searchEbayListings w f searchTerm maxPrice =
     (case searchEbayListingsTry w f searchTerm maxPrice of
        Inl _ \<Rightarrow> getMockEbayData w searchTerm maxPrice
      | Inr listings \<Rightarrow> listings)"

subsection \<open>The durable store\<close>

record foundListing =
  wishlist_item_id :: string
  platform :: string
  listing_title :: string
  listing_price :: double
  listing_url :: string
  listing_image_url :: "string option"
  found_at :: string
  notified :: bool

record wishlistItem =
  item_id :: string
  item_name :: string
  ebay_search_term :: "string option"
  desired_price_max :: "double option"
  last_checked_at :: "string option"
  updated_at :: string

record store =
  found_listings :: "foundListing list"
  wishlist_items :: "wishlistItem list"

text \<open>
  A call of the store client succeeds, returns an error object, or throws. The
  outcomes of the lookup and of the insert are given for each position of the loop
  over the listings, the outcome of the final update once.
\<close>

datatype outcome = Succeeds | Fails | Throws

record db =
  selectOutcome :: "nat \<Rightarrow> outcome"
  insertOutcome :: "nat \<Rightarrow> outcome"
  updateOutcome :: outcome

text \<open>
  \<open>.select('id').eq(...).eq(...).single()\<close>: the data is the row when exactly one row
  matches, and null otherwise (also when the query returns an error, which the
  source does not look at).
\<close>

definition selectSingle :: "outcome \<Rightarrow> store \<Rightarrow> string \<Rightarrow> string \<Rightarrow> foundListing option" where
  "selectSingle oc st wid u =
     (if oc = Succeeds
      then (case filter (\<lambda>r. wishlist_item_id r = wid \<and> listing_url r = u) (found_listings st) of
              [r] \<Rightarrow> Some r
            | _ \<Rightarrow> None)
      else None)"

text \<open>
  The loop over the listings at position \<open>i\<close> with the count so far. The second
  component is \<open>None\<close> when a call threw; the rows inserted before that stay.
\<close>

fun listingLoop ::
  "db \<Rightarrow> env \<Rightarrow> wishlistItem \<Rightarrow> nat \<Rightarrow> EbayListing list \<Rightarrow> store \<Rightarrow> nat \<Rightarrow> store \<times> nat option" where
  "listingLoop d w item i [] st newListingsCount = (st, Some newListingsCount)"
| "listingLoop d w item i (listing # listings) st newListingsCount =
     (if selectOutcome d i = Throws then (st, None)
      else (case selectSingle (selectOutcome d i) st (item_id item) (lUrl listing) of
              Some existingListing \<Rightarrow> listingLoop d w item (Suc i) listings st newListingsCount
            | None \<Rightarrow>
                (case insertOutcome d i of
                   Throws \<Rightarrow> (st, None)
                 | Fails \<Rightarrow> listingLoop d w item (Suc i) listings st newListingsCount
                 | Succeeds \<Rightarrow>
                     listingLoop d w item (Suc i) listings
                       (st\<lparr>found_listings := found_listings st @
                           [\<lparr>wishlist_item_id = item_id item,
                             platform = ''ebay'',
                             listing_title = lTitle listing,
                             listing_price = lPrice listing,
                             listing_url = lUrl listing,
                             listing_image_url = lImageUrl listing,
                             found_at = toISOString w (dateNow w),
                             notified = False\<rparr>]\<rparr>)
                       (Suc newListingsCount))))"

text \<open>\<open>.update({...}).eq('id', item.id)\<close> on the wish-list items.\<close>

definition touchItem :: "env \<Rightarrow> string \<Rightarrow> store \<Rightarrow> store" where
  "touchItem w wid st =
     st\<lparr>wishlist_items :=
          map (\<lambda>r. if item_id r = wid
                   then r\<lparr>last_checked_at := Some (toISOString w (dateNow w)),
                          updated_at := toISOString w (dateNow w)\<rparr>
                   else r)
              (wishlist_items st)\<rparr>"

text \<open>\<open>!item.ebay_search_term?.trim()\<close>\<close>

definition blankTerm :: "string option \<Rightarrow> bool" where
  "blankTerm t = (case t of None \<Rightarrow> True | Some s \<Rightarrow> trim s = [])"

text \<open>The store after the run and the number returned.\<close>

definition processWishlistItem ::
  "db \<Rightarrow> env \<Rightarrow> fetch \<Rightarrow> store \<Rightarrow> wishlistItem \<Rightarrow> store \<times> nat" where
  "processWishlistItem d w f st item =
     (if blankTerm (ebay_search_term item) then (st, 0)
      else (let listings = searchEbayListings w f (the (ebay_search_term item))
                             (desired_price_max item)
            in case listingLoop d w item 0 listings st 0 of
                 (st', None) \<Rightarrow> (st', 0)
               | (st', Some newListingsCount) \<Rightarrow>
                   (case updateOutcome d of
                      Throws \<Rightarrow> (st', 0)
                    | Fails \<Rightarrow> (st', newListingsCount)
                    | Succeeds \<Rightarrow> (touchItem w (item_id item) st', newListingsCount))))"

text \<open>An exception reaches the \<open>catch\<close> block of \<open>processWishlistItem\<close>.\<close>

definition processingThrows :: "db \<Rightarrow> env \<Rightarrow> fetch \<Rightarrow> store \<Rightarrow> wishlistItem \<Rightarrow> bool" where
  "processingThrows d w f st item \<longleftrightarrow>
     \<not> blankTerm (ebay_search_term item) \<and>
     (snd (listingLoop d w item 0
             (searchEbayListings w f (the (ebay_search_term item)) (desired_price_max item))
             st 0) = None
      \<or> updateOutcome d = Throws)"

text \<open>
  The uniqueness invariant of the found listings: no pair of wish-list item and listing
  URL occurs in two rows.
\<close>

definition uniquePairs :: "store \<Rightarrow> bool" where
  "uniquePairs st = distinct (map (\<lambda>r. (wishlist_item_id r, listing_url r)) (found_listings st))"

section \<open>The request handler of market-analysis\<close>

text \<open>
  The body of a request: \<open>BodyThrows\<close> is a body on which \<open>req.json()\<close> rejects (no
  body, or a text that is not JSON), with the message of the error; \<open>BodyNull\<close> is
  the JSON value \<open>null\<close>, on which reading a property throws a TypeError, with its
  message; \<open>Body\<close> is any other JSON value, with its fields \<open>itemName\<close>,
  \<open>manufacturer\<close>, \<open>pattern\<close> and \<open>category\<close>, which are strings or absent.
\<close>

record requestBody =
  bItemName :: "string option"
  bManufacturer :: "string option"
  bPattern :: "string option"
  bCategory :: "string option"

datatype bodyOutcome = BodyThrows string | BodyNull string | Body requestBody

record request =
  reqMethod :: string
  reqBody :: bodyOutcome

datatype responseBody =
    NoBody
  | ErrorBody string "string option"
  | AnalysisBody MarketAnalysis "string list"

record response =
  status :: nat
  headers :: "(string \<times> string) list"
  body :: responseBody

definition corsHeaders :: "(string \<times> string) list" where
  "corsHeaders =
     [(''Access-Control-Allow-Origin'', ''*''),
      (''Access-Control-Allow-Methods'', ''GET, POST, PUT, DELETE, OPTIONS''),
      (''Access-Control-Allow-Headers'', ''Content-Type, Authorization'')]"

definition jsonHeaders :: "(string \<times> string) list" where
  "jsonHeaders = corsHeaders @ [(''Content-Type'', ''application/json'')]"

text \<open>The response and the URLs requested from the marketplace while handling.\<close>

definition serve :: "env \<Rightarrow> fetch \<Rightarrow> request \<Rightarrow> response \<times> string list" where
  "serve w f req =
     (if reqMethod req = ''OPTIONS''
      then (\<lparr>status = 200, headers = corsHeaders, body = NoBody\<rparr>, [])
      else if reqMethod req \<noteq> ''POST''
      then (\<lparr>status = 405, headers = jsonHeaders,
             body = ErrorBody ''Method not allowed'' None\<rparr>, [])
      else (case reqBody req of
              BodyThrows msg \<Rightarrow>
                (\<lparr>status = 500, headers = jsonHeaders,
                  body = ErrorBody ''Failed to analyze market data'' (Some msg)\<rparr>, [])
            | BodyNull msg \<Rightarrow>
                (\<lparr>status = 500, headers = jsonHeaders,
                  body = ErrorBody ''Failed to analyze market data'' (Some msg)\<rparr>, [])
            | Body requestData \<Rightarrow>
                if \<not> truthy (bItemName requestData) \<or> \<not> truthy (bCategory requestData)
                then (\<lparr>status = 400, headers = jsonHeaders,
                       body = ErrorBody ''Item name and category are required'' None\<rparr>, [])
                else (let request =
                            \<lparr>itemName = the (bItemName requestData),
                             manufacturer = bManufacturer requestData,
                             pattern = bPattern requestData,
                             category = the (bCategory requestData)\<rparr>;
                          searchTerms = generateSearchTerms request;
                          (soldItems, fetched) = searcheBaySoldListings w f searchTerms;
                          analysis = calculateMarketAnalysis soldItems
                      in (\<lparr>status = 200, headers = jsonHeaders,
                           body = AnalysisBody analysis searchTerms\<rparr>, fetched))))"

section \<open>Example data\<close>

text \<open>
  A sold listing whose price is written as the decimal literal \<open>p\<close>, for the concrete
  instances below.
\<close>

abbreviation sale :: "real \<Rightarrow> eBayItem" where
  "sale p \<equiv> \<lparr>title = ''Jadite bowl'', price = dbl p,
     soldDate = ''2024-05-01T00:00:00.000Z'', condition = ''Good'', url = ''#'',
     imageUrl = None\<rparr>"

text \<open>
  An environment without a credential, in which every call of \<open>Math.random()\<close> gives
  0.99, and one with a credential; a marketplace that cannot be reached.
\<close>

definition envMock :: env where
  "envMock = \<lparr>EBAY_APP_ID = None, parseFloat = (\<lambda>s. None),
     toISOString = (\<lambda>t. ''2024-05-01T00:00:00.000Z''), numberToString = (\<lambda>x. ''10''),
     dateNow = dbl 0, random = (\<lambda>k. dbl (99 / 100))\<rparr>"

definition envLive :: env where
  "envLive = envMock\<lparr>EBAY_APP_ID := Some ''APP'',
     parseFloat := (\<lambda>s. if s = ''25.00'' then Some (dbl 25)
                        else if s = ''0'' then Some (dbl 0) else None)\<rparr>"

definition fetchDown :: fetch where
  "fetchDown = (\<lambda>k u. NetworkError)"

text \<open>An answer with one sold item at 25.00, one unsold item and one without a price.\<close>

definition rawSold :: rawItem where
  "rawSold = \<lparr>rTitle = Some ''Jadite bowl'', rSellingState = Some ''EndedWithSales'',
     rCurrentPrice = Some ''25.00'', rEndTime = Some ''2024-04-30T10:00:00.000Z'',
     rCondition = Some ''Used'', rViewItemURL = Some ''https://www.ebay.com/itm/1'',
     rGalleryURL = None\<rparr>"

definition fetchSold :: fetch where
  "fetchSold = (\<lambda>k u. HttpResponse 200 (Envelope (Some ''Success'')
      (Some [Some rawSold,
             Some (rawSold\<lparr>rSellingState := Some ''EndedWithoutSales''\<rparr>),
             Some (rawSold\<lparr>rCurrentPrice := None\<rparr>)])))"

text \<open>A wish-list item, a store that holds it, and five behaviours of the store.\<close>

definition bowl :: wishlistItem where
  "bowl = \<lparr>item_id = ''w1'', item_name = ''Jadite bowl'',
     ebay_search_term = Some ''jadite bowl'', desired_price_max = None,
     last_checked_at = None, updated_at = ''2024-01-01T00:00:00.000Z''\<rparr>"

definition store0 :: store where
  "store0 = \<lparr>found_listings = [], wishlist_items = [bowl]\<rparr>"

definition dbOk :: db where
  "dbOk = \<lparr>selectOutcome = (\<lambda>i. Succeeds), insertOutcome = (\<lambda>i. Succeeds),
     updateOutcome = Succeeds\<rparr>"

definition dbInsertFails :: db where
  "dbInsertFails = dbOk\<lparr>insertOutcome := (\<lambda>i. Fails)\<rparr>"

definition dbSelectThrows :: db where
  "dbSelectThrows = dbOk\<lparr>selectOutcome := (\<lambda>i. Throws)\<rparr>"

definition dbSelectFails :: db where
  "dbSelectFails = dbOk\<lparr>selectOutcome := (\<lambda>i. Fails)\<rparr>"

definition dbUpdateFails :: db where
  "dbUpdateFails = dbOk\<lparr>updateOutcome := Fails\<rparr>"

section \<open>Properties of the numbers\<close>

lemma pow2_pos: "0 < pow2 e"
  by (simp add: pow2_def)

lemma pow2_Suc: "pow2 (e + 1) = 2 * pow2 e"
proof (cases "0 \<le> e")
  case True
  then show ?thesis by (simp add: pow2_def nat_add_distrib)
next
  case False
  then have "nat (- e) = Suc (nat (- (e + 1)))" by simp
  with False show ?thesis by (auto simp: pow2_def)
qed

lemma pow2_mono: "e1 \<le> e2 \<Longrightarrow> pow2 e1 \<le> pow2 e2"
proof (induction "nat (e2 - e1)" arbitrary: e2)
  case 0
  then show ?case by simp
next
  case (Suc n)
  then have "n = nat ((e2 - 1) - e1)" "e1 \<le> e2 - 1" by simp_all
  then have "pow2 e1 \<le> pow2 (e2 - 1)" using Suc.hyps(1) by blast
  also have "\<dots> \<le> pow2 e2" using pow2_Suc [of "e2 - 1"] pow2_pos [of "e2 - 1"] by simp
  finally show ?case .
qed

text \<open>The search finds the exponent of a magnitude between two powers of 2.\<close>

lemma findExponent_eq:
  "e0 \<le> e \<Longrightarrow> nat (e - e0) \<le> n \<Longrightarrow> pow2 e \<le> a \<Longrightarrow> a < pow2 (e + 1)
   \<Longrightarrow> findExponent n e0 a = e"
proof (induction n arbitrary: e0)
  case 0
  then show ?case by simp
next
  case (Suc n)
  show ?case
  proof (cases "e0 = e")
    case True
    with Suc.prems show ?thesis by simp
  next
    case False
    with Suc.prems have lt: "e0 + 1 \<le> e" by simp
    then have "pow2 (e0 + 1) \<le> pow2 e" by (rule pow2_mono)
    with Suc.prems have "\<not> a < pow2 (e0 + 1)" by simp
    moreover have "findExponent n (e0 + 1) a = e"
      using Suc.prems lt by (intro Suc.IH) auto
    ultimately show ?thesis by simp
  qed
qed

lemma exponent_eq:
  assumes "- 1022 \<le> e" "e \<le> 1023" "pow2 e \<le> \<bar>x\<bar>" "\<bar>x\<bar> < pow2 (e + 1)"
  shows "exponent x = e"
  unfolding exponent_def using assms by (intro findExponent_eq) auto

lemma exponent_small:
  assumes "\<bar>x\<bar> < pow2 (- 1021)"
  shows "exponent x = - 1022"
proof -
  have "findExponent (Suc 2044) (- 1022) \<bar>x\<bar> = - 1022"
    using assms by (simp only: findExponent.simps) simp
  moreover have "(2045::nat) = Suc 2044" by simp
  ultimately show ?thesis by (simp only: exponent_def)
qed

text \<open>The rounding of a real whose exponent is known.\<close>

lemma toDouble_at:
  assumes "- 1022 \<le> e" "e \<le> 1023" "pow2 e \<le> \<bar>x\<bar>" "\<bar>x\<bar> < pow2 (e + 1)"
    and "roundHalfEven (x / pow2 (e - 52)) = k"
  shows "toDouble x = of_int k * pow2 (e - 52)"
  using exponent_eq [OF assms(1-4)] assms(5) by (simp add: toDouble_def)

lemma toDouble_0: "toDouble 0 = 0"
proof -
  have "exponent 0 = - 1022" by (rule exponent_small) (simp add: pow2_pos)
  then show ?thesis by (simp add: toDouble_def roundHalfEven_def)
qed

declare val_inverse [code abstype]

lemma val_dbl [code abstract]: "val (dbl x) = toDouble x"
  by (simp add: dbl_def Abs_double_inverse)

lemma val_zero: "val 0 = 0"
  by (simp add: zero_double_def val_dbl toDouble_0)

lemma double_eq_iff: "a = b \<longleftrightarrow> val a = val b" for a b :: double
  by (simp add: val_inject)

text \<open>
  The roundings that the concrete instances below go through, each checked against
  its exponent and its significand.
\<close>

lemma toDouble_100: "toDouble (100) = 100"
  using toDouble_at [of "6" "100" 7036874417766400]
  by (simp add: pow2_def roundHalfEven_def)

lemma toDouble_200: "toDouble (200) = 200"
  using toDouble_at [of "7" "200" 7036874417766400]
  by (simp add: pow2_def roundHalfEven_def)

lemma toDouble_10000: "toDouble (10000) = 10000"
  using toDouble_at [of "13" "10000" 5497558138880000]
  by (simp add: pow2_def roundHalfEven_def)

lemma toDouble_201_200: "toDouble (201 / 200) = 1131529406376837 / 1125899906842624"
  using toDouble_at [of "0" "201 / 200" 4526117625507348]
  by (simp add: pow2_def roundHalfEven_def)

lemma toDouble_step1: "toDouble (28288235159420925 / 281474976710656) = 7072058789855231 / 70368744177664"
  using toDouble_at [of "6" "28288235159420925 / 281474976710656" 7072058789855231]
  by (simp add: pow2_def roundHalfEven_def)

lemma toDouble_1: "toDouble (1) = 1"
  using toDouble_at [of "0" "1" 4503599627370496]
  by (simp add: pow2_def roundHalfEven_def)

lemma toDouble_107_40: "toDouble (107 / 40) = 3011782250804019 / 1125899906842624"
  using toDouble_at [of "1" "107 / 40" 6023564501608038]
  by (simp add: pow2_def roundHalfEven_def)

lemma toDouble_step2: "toDouble (75294556270100475 / 281474976710656) = 535 / 2"
  using toDouble_at [of "8" "75294556270100475 / 281474976710656" 4705909766881280]
  by (simp add: pow2_def roundHalfEven_def)

lemma toDouble_268: "toDouble (268) = 268"
  using toDouble_at [of "8" "268" 4714705859903488]
  by (simp add: pow2_def roundHalfEven_def)

lemma toDouble_67_25: "toDouble (67 / 25) = 6034823500676465 / 2251799813685248"
  using toDouble_at [of "1" "67 / 25" 6034823500676465]
  by (simp add: pow2_def roundHalfEven_def)

lemma toDouble_105: "toDouble (105) = 105"
  using toDouble_at [of "6" "105" 7388718138654720]
  by (simp add: pow2_def roundHalfEven_def)

lemma toDouble_98: "toDouble (98) = 98"
  using toDouble_at [of "6" "98" 6896136929411072]
  by (simp add: pow2_def roundHalfEven_def)

lemma toDouble_102: "toDouble (102) = 102"
  using toDouble_at [of "6" "102" 7177611906121728]
  by (simp add: pow2_def roundHalfEven_def)

lemma toDouble_99: "toDouble (99) = 99"
  using toDouble_at [of "6" "99" 6966505673588736]
  by (simp add: pow2_def roundHalfEven_def)

lemma toDouble_101: "toDouble (101) = 101"
  using toDouble_at [of "6" "101" 7107243161944064]
  by (simp add: pow2_def roundHalfEven_def)

lemma toDouble_10: "toDouble (10) = 10"
  using toDouble_at [of "3" "10" 5629499534213120]
  by (simp add: pow2_def roundHalfEven_def)

lemma toDouble_500: "toDouble (500) = 500"
  using toDouble_at [of "8" "500" 8796093022208000]
  by (simp add: pow2_def roundHalfEven_def)

lemma toDouble_20: "toDouble (20) = 20"
  using toDouble_at [of "4" "20" 5629499534213120]
  by (simp add: pow2_def roundHalfEven_def)

lemma toDouble_7: "toDouble (7) = 7"
  using toDouble_at [of "2" "7" 7881299347898368]
  by (simp add: pow2_def roundHalfEven_def)

lemma toDouble_7_100: "toDouble (7 / 100) = 1261007895663739 / 18014398509481984"
  using toDouble_at [of "- 4" "7 / 100" 5044031582654956]
  by (simp add: pow2_def roundHalfEven_def)

lemma toDouble_3_10: "toDouble (3 / 10) = 5404319552844595 / 18014398509481984"
  using toDouble_at [of "- 2" "3 / 10" 5404319552844595]
  by (simp add: pow2_def roundHalfEven_def)

lemma toDouble_51_5: "toDouble (51 / 5) = 2871044762448691 / 281474976710656"
  using toDouble_at [of "3" "51 / 5" 5742089524897382]
  by (simp add: pow2_def roundHalfEven_def)

lemma toDouble_36_5: "toDouble (36 / 5) = 8106479329266893 / 1125899906842624"
  using toDouble_at [of "2" "36 / 5" 8106479329266893]
  by (simp add: pow2_def roundHalfEven_def)

lemma toDouble_step3: "toDouble (3377699720527871 / 1125899906842624) = 3377699720527871 / 1125899906842624"
  using toDouble_at [of "1" "3377699720527871 / 1125899906842624" 6755399441055742]
  by (simp add: pow2_def roundHalfEven_def)

lemma toDouble_step4: "toDouble (3377699720527871 / 11258999068426240) = 2702159776422297 / 9007199254740992"
  using toDouble_at [of "- 2" "3377699720527871 / 11258999068426240" 5404319552844594]
  by (simp add: pow2_def roundHalfEven_def)

lemma toDouble_39_10: "toDouble (39 / 10) = 8782019273372467 / 2251799813685248"
  using toDouble_at [of "1" "39 / 10" 8782019273372467]
  by (simp add: pow2_def roundHalfEven_def)

lemma toDouble_3: "toDouble (3) = 3"
  using toDouble_at [of "1" "3" 6755399441055744]
  by (simp add: pow2_def roundHalfEven_def)

lemma toDouble_step5: "toDouble (2026619832316723 / 2251799813685248) = 2026619832316723 / 2251799813685248"
  using toDouble_at [of "- 1" "2026619832316723 / 2251799813685248" 8106479329266892]
  by (simp add: pow2_def roundHalfEven_def)

lemma toDouble_step6: "toDouble (2026619832316723 / 6755399441055744) = 5404319552844595 / 18014398509481984"
  using toDouble_at [of "- 2" "2026619832316723 / 6755399441055744" 5404319552844595]
  by (simp add: pow2_def roundHalfEven_def)

lemma toDouble_4_5: "toDouble (4 / 5) = 3602879701896397 / 4503599627370496"
  using toDouble_at [of "- 1" "4 / 5" 7205759403792794]
  by (simp add: pow2_def roundHalfEven_def)

lemma toDouble_step7: "toDouble (18014398509481985 / 2251799813685248) = 8"
  using toDouble_at [of "3" "18014398509481985 / 2251799813685248" 4503599627370496]
  by (simp add: pow2_def roundHalfEven_def)

lemma toDouble_50: "toDouble (50) = 50"
  using toDouble_at [of "5" "50" 7036874417766400]
  by (simp add: pow2_def roundHalfEven_def)

lemma toDouble_99_100: "toDouble (99 / 100) = 4458563631096791 / 4503599627370496"
  using toDouble_at [of "- 1" "99 / 100" 8917127262193582]
  by (simp add: pow2_def roundHalfEven_def)

lemma toDouble_step8: "toDouble (4458563631096791 / 562949953421312) = 4458563631096791 / 562949953421312"
  using toDouble_at [of "2" "4458563631096791 / 562949953421312" 8917127262193582]
  by (simp add: pow2_def roundHalfEven_def)

lemma toDouble_1_2: "toDouble (1 / 2) = 1 / 2"
  using toDouble_at [of "- 1" "1 / 2" 4503599627370496]
  by (simp add: pow2_def roundHalfEven_def)

lemma toDouble_4: "toDouble (4) = 4"
  using toDouble_at [of "2" "4" 4503599627370496]
  by (simp add: pow2_def roundHalfEven_def)

lemma toDouble_step9: "toDouble (6710363444782039 / 562949953421312) = 6710363444782039 / 562949953421312"
  using toDouble_at [of "3" "6710363444782039 / 562949953421312" 6710363444782039]
  by (simp add: pow2_def roundHalfEven_def)

lemma toDouble_step10: "toDouble (167759086119550975 / 140737488355328) = 1192"
  using toDouble_at [of "10" "167759086119550975 / 140737488355328" 5242471441235968]
  by (simp add: pow2_def roundHalfEven_def)

lemma toDouble_1192: "toDouble (1192) = 1192"
  using toDouble_at [of "10" "1192" 5242471441235968]
  by (simp add: pow2_def roundHalfEven_def)

lemma toDouble_298_25: "toDouble (298 / 25) = 6710363444782039 / 562949953421312"
  using toDouble_at [of "3" "298 / 25" 6710363444782039]
  by (simp add: pow2_def roundHalfEven_def)

lemma toDouble_step11: "toDouble (5404319552844595 / 2251799813685248) = 5404319552844595 / 2251799813685248"
  using toDouble_at [of "1" "5404319552844595 / 2251799813685248" 5404319552844595]
  by (simp add: pow2_def roundHalfEven_def)

lemma toDouble_step12: "toDouble (23238574077231759 / 2251799813685248) = 1452410879826985 / 140737488355328"
  using toDouble_at [of "3" "23238574077231759 / 2251799813685248" 5809643519307940]
  by (simp add: pow2_def roundHalfEven_def)

lemma toDouble_step13: "toDouble (36310271995674625 / 35184372088832) = 1032"
  using toDouble_at [of "10" "36310271995674625 / 35184372088832" 4538783999459328]
  by (simp add: pow2_def roundHalfEven_def)

lemma toDouble_1032: "toDouble (1032) = 1032"
  using toDouble_at [of "10" "1032" 4538783999459328]
  by (simp add: pow2_def roundHalfEven_def)

lemma toDouble_258_25: "toDouble (258 / 25) = 1452410879826985 / 140737488355328"
  using toDouble_at [of "3" "258 / 25" 5809643519307940]
  by (simp add: pow2_def roundHalfEven_def)

lemma toDouble_25: "toDouble (25) = 25"
  using toDouble_at [of "4" "25" 7036874417766400]
  by (simp add: pow2_def roundHalfEven_def)

lemmas double_evals = toDouble_0 toDouble_100 toDouble_200 toDouble_10000 toDouble_201_200
  toDouble_step1 toDouble_1 toDouble_107_40 toDouble_step2 toDouble_268 toDouble_67_25
  toDouble_105 toDouble_98 toDouble_102 toDouble_99 toDouble_101 toDouble_10 toDouble_500
  toDouble_20 toDouble_7 toDouble_7_100 toDouble_3_10 toDouble_51_5 toDouble_36_5
  toDouble_step3 toDouble_step4 toDouble_39_10 toDouble_3 toDouble_step5 toDouble_step6
  toDouble_4_5 toDouble_step7 toDouble_50 toDouble_99_100 toDouble_step8 toDouble_1_2
  toDouble_4 toDouble_step9 toDouble_step10 toDouble_1192 toDouble_298_25 toDouble_step11
  toDouble_step12 toDouble_step13 toDouble_1032 toDouble_258_25 toDouble_25

lemmas double_ops = val_dbl fadd_def fsub_def fmul_def fdiv_def Math_round_def round2_def
  less_eq_double_def less_double_def double_eq_iff val_zero

section \<open>Properties of the search term generation\<close>

subsection \<open>Trimming\<close>

lemma filter_not_dropWhile:
  "filter (\<lambda>c. \<not> P c) (dropWhile P s) = filter (\<lambda>c. \<not> P c) s"
  by (induction s) auto

text \<open>Trimming removes white space only.\<close>

lemma filter_trim:
  "filter (\<lambda>c. \<not> isWhiteSpace c) (trim s) = filter (\<lambda>c. \<not> isWhiteSpace c) s"
proof -
  have "filter (\<lambda>c. \<not> isWhiteSpace c) (trim s)
      = rev (filter (\<lambda>c. \<not> isWhiteSpace c) (dropWhile isWhiteSpace (rev (dropWhile isWhiteSpace s))))"
    by (simp add: trim_def rev_filter)
  also have "\<dots> = rev (filter (\<lambda>c. \<not> isWhiteSpace c) (rev (dropWhile isWhiteSpace s)))"
    by (simp only: filter_not_dropWhile)
  also have "\<dots> = filter (\<lambda>c. \<not> isWhiteSpace c) (dropWhile isWhiteSpace s)"
    by (simp add: rev_filter)
  finally show ?thesis by (simp only: filter_not_dropWhile)
qed

text \<open>A phrase that starts with a character that is not dropped survives in the middle.\<close>

lemma dropWhile_keeps_core:
  assumes "c \<noteq> []" "\<not> P (hd c)"
  shows "\<exists>a'. dropWhile P (a @ c @ b) = a' @ c @ b"
proof (cases "\<forall>x\<in>set a. P x")
  case True
  from assms obtain x xs where c: "c = x # xs" "\<not> P x" by (cases c) auto
  have "dropWhile P (a @ c @ b) = dropWhile P (c @ b)" using True by simp
  also have "\<dots> = [] @ c @ b" using c by simp
  finally show ?thesis by blast
next
  case False
  then obtain x where "x \<in> set a" "\<not> P x" by blast
  then have "dropWhile P (a @ c @ b) = dropWhile P a @ c @ b"
    by (rule dropWhile_append1)
  then show ?thesis by blast
qed

lemma trim_keeps_core:
  assumes "c \<noteq> []" "\<not> isWhiteSpace (hd c)" "\<not> isWhiteSpace (last c)"
  shows "\<exists>a' b'. trim (a @ c @ b) = a' @ c @ b'"
proof -
  obtain a' where 1: "dropWhile isWhiteSpace (a @ c @ b) = a' @ c @ b"
    using dropWhile_keeps_core [of c isWhiteSpace a b] assms by blast
  have rc: "rev c \<noteq> []" "\<not> isWhiteSpace (hd (rev c))"
    using assms by (simp_all add: hd_rev)
  obtain b' where 2: "dropWhile isWhiteSpace (rev b @ rev c @ rev a') = b' @ rev c @ rev a'"
    using dropWhile_keeps_core [of "rev c" isWhiteSpace "rev b" "rev a'"] rc by blast
  have "trim (a @ c @ b) = a' @ c @ rev b'"
    using 1 2 by (simp add: trim_def)
  then show ?thesis by blast
qed

lemma includesStr_trim_core:
  assumes "c \<noteq> []" "\<not> isWhiteSpace (hd c)" "\<not> isWhiteSpace (last c)"
  shows "includesStr (trim (a @ c @ b)) c"
  using trim_keeps_core [of c a b] assms by (auto simp: includesStr_def sublist_def)

lemma includesStr_nonempty: "includesStr t c \<Longrightarrow> c \<noteq> [] \<Longrightarrow> t \<noteq> []"
  by (auto simp: includesStr_def)

subsection \<open>The set of the source language\<close>

lemma set_setAddAll: "set (setAddAll acc xs) = set acc \<union> set xs"
  by (induction xs arbitrary: acc) auto

lemma distinct_setAddAll: "distinct acc \<Longrightarrow> distinct (setAddAll acc xs)"
  by (induction xs arbitrary: acc) auto

lemma set_newSet: "set (newSet xs) = set xs"
  by (simp add: newSet_def set_setAddAll)

lemma distinct_newSet: "distinct (newSet xs)"
  by (simp add: newSet_def distinct_setAddAll)

lemma length_newSet: "length (newSet xs) = card (set xs)"
  using distinct_card [OF distinct_newSet, of xs] by (simp add: set_newSet)

subsection \<open>The generated terms\<close>

lemma categoryName_core:
  "categoryName c \<noteq> [] \<and> \<not> isWhiteSpace (hd (categoryName c))
   \<and> \<not> isWhiteSpace (last (categoryName c))"
  by (simp add: categoryName_def isWhiteSpace_def)

lemma base_term_includes:
  "includesStr (trim (a @ categoryName c @ b)) (categoryName c)"
  using includesStr_trim_core [of "categoryName c" a b] categoryName_core [of c] by simp

text \<open>
  The term that starts with \<open>vintage\<close> has seven more characters that are not white
  space than a term made of the name and the category alone.
\<close>

lemma vintage_term_differs:
  assumes "length (filter (\<lambda>c. \<not> isWhiteSpace c) u)
         = length (filter (\<lambda>c. \<not> isWhiteSpace c) (cn @ nm))"
  shows "trim u \<noteq> trim (''vintage '' @ cn @ '' '' @ nm)"
proof
  assume "trim u = trim (''vintage '' @ cn @ '' '' @ nm)"
  then have "filter (\<lambda>c. \<not> isWhiteSpace c) (trim u)
           = filter (\<lambda>c. \<not> isWhiteSpace c) (trim (''vintage '' @ cn @ '' '' @ nm))"
    by simp
  then have "filter (\<lambda>c. \<not> isWhiteSpace c) u
           = filter (\<lambda>c. \<not> isWhiteSpace c) (''vintage '' @ cn @ '' '' @ nm)"
    by (simp only: filter_trim)
  then have "length (filter (\<lambda>c. \<not> isWhiteSpace c) u)
           = length (filter (\<lambda>c. \<not> isWhiteSpace c) (''vintage '' @ cn @ '' '' @ nm))"
    by simp
  with assms show False by (simp add: isWhiteSpace_def)
qed

lemma base_terms_in:
  "{trim (itemName r @ '' '' @ categoryName (category r)),
    trim (categoryName (category r) @ '' '' @ itemName r),
    trim (''vintage '' @ categoryName (category r) @ '' '' @ itemName r)}
   \<subseteq> set (generateSearchTerms r)"
proof -
  let ?cn = "categoryName (category r)"
  have 1: "trim (itemName r @ '' '' @ ?cn) \<noteq> []"
    using base_term_includes [of "itemName r @ '' ''" "category r" "[]"]
      categoryName_core [of "category r"]
    by (auto dest: includesStr_nonempty)
  have 2: "trim (?cn @ '' '' @ itemName r) \<noteq> []"
    using base_term_includes [of "[]" "category r" "'' '' @ itemName r"]
      categoryName_core [of "category r"]
    by (auto dest: includesStr_nonempty)
  have 3: "trim (''vintage '' @ ?cn @ '' '' @ itemName r) \<noteq> []"
    using base_term_includes [of "''vintage ''" "category r" "'' '' @ itemName r"]
      categoryName_core [of "category r"]
    by (auto dest: includesStr_nonempty)
  show ?thesis
    using 1 2 3 by (simp add: generateSearchTerms_def Let_def set_newSet)
qed

lemma terms_include_category:
  assumes "t \<in> set (generateSearchTerms r)"
  shows "includesStr t (categoryName (category r))
       \<or> (truthy (manufacturer r)
          \<and> (t = trim (the (manufacturer r) @ '' '' @ itemName r)
             \<or> t = trim (itemName r @ '' '' @ the (manufacturer r))))"
proof -
  let ?cn = "categoryName (category r)"
  have a: "includesStr (trim (x @ '' '' @ ?cn)) ?cn" for x
    using base_term_includes [of "x @ '' ''" "category r" "[]"] by simp
  have b: "includesStr (trim (?cn @ '' '' @ x)) ?cn" for x
    using base_term_includes [of "[]" "category r" "'' '' @ x"] by simp
  have c: "includesStr (trim (''vintage '' @ ?cn @ '' '' @ itemName r)) ?cn"
    using base_term_includes [of "''vintage ''" "category r" "'' '' @ itemName r"] by simp
  have d: "includesStr (trim (x @ '' '' @ y @ '' '' @ ?cn)) ?cn" for x y
    using base_term_includes [of "x @ '' '' @ y @ '' ''" "category r" "[]"] by simp
  from assms show ?thesis
    using a b c d
    by (auto simp: generateSearchTerms_def Let_def set_newSet split: if_splits)
qed

text \<open>
  Claim C1, as amended. For every request (in particular with a non-empty name and
  category) \<open>generateSearchTerms\<close> returns at least 2 terms, and at least 3 whenever
  the first two base terms differ after trimming; no term is empty and no term occurs
  twice (exact comparison); every term contains the category display phrase, the two
  manufacturer terms built from manufacturer and name alone excepted, about which
  nothing is said.
\<close>

theorem generateSearchTerms_terms:
  fixes r :: MarketAnalysisRequest
  defines "cn \<equiv> categoryName (category r)"
  defines "nm \<equiv> itemName r"
  shows "2 \<le> length (generateSearchTerms r)
       \<and> distinct (generateSearchTerms r)
       \<and> [] \<notin> set (generateSearchTerms r)
       \<and> (trim (nm @ '' '' @ cn) \<noteq> trim (cn @ '' '' @ nm)
            \<longrightarrow> 3 \<le> length (generateSearchTerms r))
       \<and> (\<forall>t \<in> set (generateSearchTerms r).
             includesStr t cn
             \<or> (truthy (manufacturer r)
                \<and> (t = trim (the (manufacturer r) @ '' '' @ nm)
                   \<or> t = trim (nm @ '' '' @ the (manufacturer r)))))"
proof -
  let ?t1 = "trim (nm @ '' '' @ cn)"
  let ?t2 = "trim (cn @ '' '' @ nm)"
  let ?t3 = "trim (''vintage '' @ cn @ '' '' @ nm)"
  let ?g = "generateSearchTerms r"
  have sub: "{?t1, ?t2, ?t3} \<subseteq> set ?g"
    unfolding cn_def nm_def by (rule base_terms_in)
  have d13: "?t1 \<noteq> ?t3" by (rule vintage_term_differs) (simp add: isWhiteSpace_def)
  have d23: "?t2 \<noteq> ?t3" by (rule vintage_term_differs) (simp add: isWhiteSpace_def)
  have len: "length ?g = card (set ?g)"
    by (simp add: generateSearchTerms_def Let_def length_newSet set_newSet)
  have "card {?t2, ?t3} \<le> card (set ?g)"
    using sub by (intro card_mono) auto
  then have two: "2 \<le> length ?g" using d23 len by simp
  have three: "3 \<le> length ?g" if "?t1 \<noteq> ?t2"
  proof -
    have "card {?t1, ?t2, ?t3} \<le> card (set ?g)"
      using sub by (intro card_mono) auto
    then show ?thesis using that d13 d23 len by simp
  qed
  have dist: "distinct ?g"
    by (simp add: generateSearchTerms_def Let_def distinct_newSet)
  have ne: "[] \<notin> set ?g"
    by (simp add: generateSearchTerms_def Let_def set_newSet)
  have inc: "\<forall>t \<in> set ?g. includesStr t cn
             \<or> (truthy (manufacturer r)
                \<and> (t = trim (the (manufacturer r) @ '' '' @ nm)
                   \<or> t = trim (nm @ '' '' @ the (manufacturer r))))"
    unfolding cn_def nm_def using terms_include_category by blast
  from two dist ne three inc show ?thesis by blast
qed

text \<open>The theorem at the item Hen on Nest by Fenton, in milk glass.\<close>

theorem generateSearchTerms_terms_witness:
  "3 \<le> length (generateSearchTerms
        \<lparr>itemName = ''Hen on Nest'', manufacturer = Some ''Fenton'', pattern = None,
         category = ''milk_glass''\<rparr>)
   \<and> distinct (generateSearchTerms
        \<lparr>itemName = ''Hen on Nest'', manufacturer = Some ''Fenton'', pattern = None,
         category = ''milk_glass''\<rparr>)
   \<and> ''Hen on Nest milk glass'' \<noteq> ''milk glass Hen on Nest''"
  using generateSearchTerms_terms [of "\<lparr>itemName = ''Hen on Nest'',
      manufacturer = Some ''Fenton'', pattern = None, category = ''milk_glass''\<rparr>"]
  by (simp add: categoryName_def trim_def isWhiteSpace_def)

text \<open>
  The claim as it was stated fails twice: an item named \<open>jadite\<close> in the category
  \<open>jadite\<close> gets 2 terms, not 3, and the term \<open>Fenton Hen on Nest\<close> of the item above
  does not contain the category phrase.
\<close>

theorem generateSearchTerms_claim_counterexample:
  "\<not> 3 \<le> length (generateSearchTerms
        \<lparr>itemName = ''jadite'', manufacturer = None, pattern = None, category = ''jadite''\<rparr>)
   \<and> ''Fenton Hen on Nest'' \<in> set (generateSearchTerms
        \<lparr>itemName = ''Hen on Nest'', manufacturer = Some ''Fenton'', pattern = None,
         category = ''milk_glass''\<rparr>)
   \<and> \<not> includesStr ''Fenton Hen on Nest'' (categoryName ''milk_glass'')"
  by (simp add: generateSearchTerms_def categoryName_def trim_def isWhiteSpace_def newSet_def
      Let_def includesStr_def sublist_code prefix_code)

text \<open>
  The category display name is a two-way branch: \<open>milk glass\<close> for the category
  \<open>milk_glass\<close> and the literal \<open>jadite\<close> for every other category, so the terms of
  any other category are those of the category \<open>jadite\<close>.
\<close>

lemma categoryName_branches:
  "categoryName c = (if c = ''milk_glass'' then ''milk glass'' else ''jadite'')
   \<and> (categoryName c = ''milk glass'' \<longleftrightarrow> c = ''milk_glass'')
   \<and> (categoryName c = ''jadite'' \<longleftrightarrow> c \<noteq> ''milk_glass'')"
  by (simp add: categoryName_def)

lemma generateSearchTerms_other_category:
  assumes "category r \<noteq> ''milk_glass''"
  shows "generateSearchTerms r = generateSearchTerms (r\<lparr>category := ''jadite''\<rparr>)"
  using assms by (simp add: generateSearchTerms_def categoryName_def Let_def)

text \<open>
  Claim C10, at an input where the code departs from it. The claim says that for a
  category other than \<open>milk_glass\<close> every generated term carries the display name
  \<open>jadite\<close>, and the comments of \<open>generateSearchTerms\<close> say that the category is always
  included. For the vase by Fenton in \<open>blue_glass\<close> the display name is \<open>jadite\<close>, and
  the code returns these 8 terms, of which \<open>Fenton Vase\<close> and \<open>Vase Fenton\<close> do not
  contain it.
\<close>

theorem generateSearchTerms_blue_glass:
  "categoryName ''blue_glass'' = ''jadite''
   \<and> generateSearchTerms \<lparr>itemName = ''Vase'', manufacturer = Some ''Fenton'',
        pattern = None, category = ''blue_glass''\<rparr>
     = [''Vase jadite'', ''jadite Vase'', ''vintage jadite Vase'', ''Fenton jadite'',
        ''Fenton Vase jadite'', ''jadite Fenton'', ''Fenton Vase'', ''Vase Fenton'']
   \<and> \<not> includesStr ''Fenton Vase'' ''jadite''
   \<and> \<not> includesStr ''Vase Fenton'' ''jadite''"
  by (simp add: generateSearchTerms_def categoryName_def trim_def isWhiteSpace_def newSet_def
      Let_def includesStr_def sublist_code prefix_code)

section \<open>Properties of the market analysis\<close>

text \<open>
  Claim C8. The analysis of the empty list is exactly the record with average price 0,
  no recent sales, the price range from 0 to 0 and the confidence \<open>low\<close>.
\<close>

theorem calculateMarketAnalysis_empty:
  "calculateMarketAnalysis [] =
     \<lparr>averagePrice = 0, recentSales = [],
      priceRange = \<lparr>range_min = 0, range_max = 0\<rparr>, confidence = low\<rparr>"
  by simp

text \<open>
  Claim C2. For every non-empty list of sold listings the average price is the price
  of the first element rounded to 2 decimals, that is \<open>Math.round(p * 100) / 100\<close> in
  the arithmetic of the source. It is never computed as the arithmetic mean: the
  prices of the other elements have no part in it.
\<close>

theorem averagePrice_first_price:
  assumes "sales \<noteq> []"
  shows "averagePrice (calculateMarketAnalysis sales) = round2 (price (hd sales))
       \<and> averagePrice (calculateMarketAnalysis sales)
           = fdiv (Math_round (fmul (price (hd sales)) (dbl 100))) (dbl 100)
       \<and> (\<forall>rest. averagePrice (calculateMarketAnalysis (hd sales # rest))
                  = averagePrice (calculateMarketAnalysis sales))"
proof -
  from assms obtain s others where sales: "sales = s # others" by (cases sales) auto
  have "averagePrice (calculateMarketAnalysis (s # rest)) = round2 (price s)" for rest
    by (simp add: Let_def)
  then show ?thesis by (simp add: sales round2_def)
qed

text \<open>
  Two sales at 100 and 200: the average price is 100, the mean is 150. A single sale
  at 1.005 gives 1, because the product in doubles is 100.49999999999999, and a sale
  at 2.675 gives 2.68, because the product in doubles is 267.5.
\<close>

theorem averagePrice_first_price_witness:
  "[sale 100, sale 200] \<noteq> []
   \<and> val (averagePrice (calculateMarketAnalysis [sale 100, sale 200])) = 100
   \<and> arithmeticMean (map price [sale 100, sale 200]) = 150
   \<and> val (averagePrice (calculateMarketAnalysis [sale (1005 / 1000)])) = 1
   \<and> averagePrice (calculateMarketAnalysis [sale (2675 / 1000)]) = dbl (268 / 100)"
  using averagePrice_first_price [of "[sale 100, sale 200]"]
    averagePrice_first_price [of "[sale (1005 / 1000)]"]
    averagePrice_first_price [of "[sale (2675 / 1000)]"]
  by (simp add: arithmeticMean_def double_ops double_evals)

lemma fold_min_Min: "fold min xs (x::double) = Min (set (x # xs))"
  by (simp only: Min.set_eq_fold)

lemma fold_max_Max: "fold max xs (x::double) = Max (set (x # xs))"
  by (simp only: Max.set_eq_fold)

text \<open>
  Claim C3. For every non-empty list of sold listings whose first price is positive:
  with at least 5 sales the confidence is \<open>high\<close> when (max - min) / first price,
  computed in the arithmetic of the source, is below 0.3 and \<open>medium\<close> otherwise, so 5
  or more equal prices give \<open>high\<close>; with 3 or 4 sales it is \<open>medium\<close> whatever the
  prices; with 1 or 2 sales it is \<open>low\<close>.
\<close>

theorem confidence_policy:
  assumes "sales \<noteq> []" and "price (hd sales) > 0"
  shows "confidence (calculateMarketAnalysis sales) =
           (if 5 \<le> length sales
            then (if fdiv (fsub (Max (set (map price sales))) (Min (set (map price sales))))
                       (price (hd sales)) < dbl (3 / 10)
                  then high else medium)
            else if 3 \<le> length sales then medium
            else low)
       \<and> (5 \<le> length sales \<and> (\<forall>s \<in> set sales. price s = price (hd sales))
            \<longrightarrow> confidence (calculateMarketAnalysis sales) = high)"
proof -
  from assms obtain s rest where sales: "sales = s # rest" by (cases sales) auto
  have mn: "fold min (map price rest) (price s) = Min (set (map price sales))"
    unfolding sales by (simp only: fold_min_Min list.map)
  have mx: "fold max (map price rest) (price s) = Max (set (map price sales))"
    unfolding sales by (simp only: fold_max_Max list.map)
  have nz: "price s \<noteq> 0" using assms(2) sales by auto
  have pol: "confidence (calculateMarketAnalysis sales) =
           (if 5 \<le> length sales
            then (if fdiv (fsub (Max (set (map price sales))) (Min (set (map price sales))))
                       (price (hd sales)) < dbl (3 / 10)
                  then high else medium)
            else if 3 \<le> length sales then medium
            else low)"
    using nz mn mx by (simp add: sales Let_def variationBelow_def)
  have eq: "confidence (calculateMarketAnalysis sales) = high"
    if "5 \<le> length sales" and all: "\<forall>s \<in> set sales. price s = price (hd sales)"
  proof -
    have "set (map price sales) = {price (hd sales)}"
      using all assms(1) by (cases sales) auto
    then have "fsub (Max (set (map price sales))) (Min (set (map price sales))) = dbl 0"
      by (simp add: fsub_def)
    then have "fdiv (fsub (Max (set (map price sales))) (Min (set (map price sales))))
                 (price (hd sales)) = dbl 0"
      by (simp add: fdiv_def val_dbl toDouble_0)
    moreover have "dbl 0 < dbl (3 / 10)"
      by (simp add: less_double_def val_dbl toDouble_0 toDouble_3_10)
    ultimately show ?thesis using pol that(1) by simp
  qed
  from pol eq show ?thesis by blast
qed

text \<open>
  Six sales between 98 and 105 with the most recent at 100 give \<open>high\<close>; three sales
  from 10 to 500 give \<open>medium\<close>. Five sales at 10, 7.2, 10.2, 10 and 10 give \<open>high\<close>,
  because the quotient in doubles is 0.29999999999999993; five sales at 3, 3.9, 3, 3
  and 3 give \<open>medium\<close>, because the quotient in doubles is the double of 0.3 itself.
\<close>

theorem confidence_policy_witness:
  "[sale 100, sale 105, sale 98, sale 102, sale 99, sale 101] \<noteq> []
   \<and> price (hd [sale 100, sale 105, sale 98, sale 102, sale 99, sale 101]) > 0
   \<and> confidence (calculateMarketAnalysis
        [sale 100, sale 105, sale 98, sale 102, sale 99, sale 101]) = high
   \<and> confidence (calculateMarketAnalysis [sale 10, sale 500, sale 20]) = medium
   \<and> confidence (calculateMarketAnalysis
        [sale 10, sale (72 / 10), sale (102 / 10), sale 10, sale 10]) = high
   \<and> confidence (calculateMarketAnalysis
        [sale 3, sale (39 / 10), sale 3, sale 3, sale 3]) = medium"
  using confidence_policy [of "[sale 100, sale 105, sale 98, sale 102, sale 99, sale 101]"]
        confidence_policy [of "[sale 10, sale 500, sale 20]"]
  by (simp add: Let_def variationBelow_def double_ops double_evals)

section \<open>Properties of the listing client\<close>

lemmas fixture_defs = envMock_def fetchDown_def bowl_def store0_def dbOk_def dbInsertFails_def
  dbSelectThrows_def dbSelectFails_def dbUpdateFails_def

subsection \<open>The synthetic listings\<close>

lemma includesStr_middle: "includesStr (a @ t @ b) t"
  by (auto simp: includesStr_def sublist_def)

lemma length_getMockEbayData: "length (getMockEbayData w t mp) \<le> 2"
  by (simp add: getMockEbayData_def Let_def)

lemma length_getMockEbayData_free:
  "\<not> truthyNum mp \<Longrightarrow> length (getMockEbayData w t mp) = 2"
  by (simp add: getMockEbayData_def Let_def)

lemma getMockEbayData_ceiling:
  "truthyNum mp \<Longrightarrow> l \<in> set (getMockEbayData w t mp) \<Longrightarrow> lPrice l \<le> the mp"
  by (auto simp: getMockEbayData_def Let_def split: if_splits)

lemma getMockEbayData_derived:
  assumes "l \<in> set (getMockEbayData w t mp)"
  shows "includesStr (lTitle l) t
       \<and> lUrl l = ''https://www.ebay.com/sch/i.html?_nkw='' @ encodeURIComponent t"
proof -
  have 1: "includesStr (t @ '' - Vintage Collectible'') t"
    using includesStr_middle [of "[]" t "'' - Vintage Collectible''"] by simp
  have 2: "includesStr (''Rare '' @ t @ '' Collection Item'') t"
    by (rule includesStr_middle)
  from assms 1 2 show ?thesis
    by (auto simp: getMockEbayData_def Let_def split: if_splits)
qed

lemma length_getMockData:
  "1 \<le> length (getMockData w ts) \<and> length (getMockData w ts) \<le> 3"
proof -
  have "length (filter P [a, b, c]) \<le> 3" for P :: "eBayItem \<Rightarrow> bool" and a b c
    by simp
  then show ?thesis
    unfolding getMockData_def Let_def
    by (simp only: split: if_split) (simp add: Suc_le_eq)
qed

text \<open>
  Claim C4, as amended. Whatever the search term and the price ceiling, in every
  failure of the upstream call (no credential, a network error, a status outside 2xx, a
  body that does not parse or has not the expected shape, an acknowledgement other
  than Success, an exception in the loop over the items) \<open>searchEbayListings\<close>
  returns the synthetic listings instead of failing. The synthetic listings of the
  active search are at most 2, each with the term in its title and in its URL: exactly
  2 when no ceiling is given, and otherwise those of the 2 whose price is within the
  ceiling. The synthetic listings of the completed search are between 1 and 3.
\<close>

theorem searchEbayListings_fallback:
  fixes w f t mp
  defines "u \<equiv> activeUrl w (the (EBAY_APP_ID w)) t mp"
  shows "((\<not> truthy (EBAY_APP_ID w)
           \<or> f 0 u = NetworkError
           \<or> (\<exists>st pl. f 0 u = HttpResponse st pl
                \<and> (\<not> responseOk st \<or> pl = Unparsable \<or> pl = Malformed \<or> pl = NoEnvelope
                    \<or> (\<exists>ack items. pl = Envelope ack items
                         \<and> (ack \<noteq> Some ''Success'' \<or> items = None
                             \<or> listingsLoop w (the items) [] = None)))))
          \<longrightarrow> searchEbayListings w f t mp = getMockEbayData w t mp)
       \<and> length (getMockEbayData w t mp) \<le> 2
       \<and> (\<not> truthyNum mp \<longrightarrow> length (getMockEbayData w t mp) = 2)
       \<and> (\<forall>l \<in> set (getMockEbayData w t mp).
             (truthyNum mp \<longrightarrow> lPrice l \<le> the mp)
             \<and> includesStr (lTitle l) t
             \<and> lUrl l = ''https://www.ebay.com/sch/i.html?_nkw='' @ encodeURIComponent t)
       \<and> 1 \<le> length (getMockData w ts) \<and> length (getMockData w ts) \<le> 3"
proof -
  have fb: "searchEbayListings w f t mp = getMockEbayData w t mp"
    if "\<not> truthy (EBAY_APP_ID w)
           \<or> f 0 u = NetworkError
           \<or> (\<exists>st pl. f 0 u = HttpResponse st pl
                \<and> (\<not> responseOk st \<or> pl = Unparsable \<or> pl = Malformed \<or> pl = NoEnvelope
                    \<or> (\<exists>ack items. pl = Envelope ack items
                         \<and> (ack \<noteq> Some ''Success'' \<or> items = None
                             \<or> listingsLoop w (the items) [] = None))))"
    using that unfolding u_def
    by (auto simp: searchEbayListings_def searchEbayListingsTry_def
        split: fetchOutcome.splits payload.splits option.splits sum.splits)
  show ?thesis
    using fb length_getMockEbayData [of w t mp] length_getMockEbayData_free [of mp w t]
      getMockEbayData_ceiling [of mp _ w t] getMockEbayData_derived [of _ w t mp]
      length_getMockData [of w ts]
    by blast
qed

text \<open>
  Without a credential and without a ceiling there are 2 synthetic listings; with a
  credential, an unreachable marketplace and a ceiling of 10 there is none.
\<close>

theorem searchEbayListings_fallback_witness:
  "\<not> truthy (EBAY_APP_ID envMock)
   \<and> searchEbayListings envMock fetchDown ''jadite bowl'' None
       = getMockEbayData envMock ''jadite bowl'' None
   \<and> length (searchEbayListings envMock fetchDown ''jadite bowl'' None) = 2
   \<and> searchEbayListings envLive fetchDown ''jadite bowl'' (Some (dbl 10)) = []"
  using searchEbayListings_fallback [of envMock fetchDown "''jadite bowl''" None]
    searchEbayListings_fallback [of envLive fetchDown "''jadite bowl''" "Some (dbl 10)"]
  by (simp add: envMock_def envLive_def fetchDown_def getMockEbayData_def Let_def
      double_ops double_evals)

text \<open>
  The claim as it was stated fails: with a ceiling of 10 and random numbers of 0.99 the
  two synthetic prices are 11.92 and 10.32, both above the ceiling, and no listing is
  left.
\<close>

theorem getMockEbayData_count_counterexample:
  "getMockEbayData envMock ''jadite bowl'' (Some (dbl 10)) = []
   \<and> \<not> 2 \<le> length (getMockEbayData envMock ''jadite bowl'' (Some (dbl 10)))"
  by (simp add: getMockEbayData_def envMock_def Let_def double_ops double_evals)

subsection \<open>The completed search over several terms\<close>






section \<open>Properties of the wish-list monitor\<close>

subsection \<open>Lookups under the uniqueness invariant\<close>

lemma distinct_key_filter:
  "distinct (map key rows) \<Longrightarrow> length (filter (\<lambda>r. key r = k) rows) \<le> 1"
proof (induction rows)
  case Nil
  then show ?case by simp
next
  case (Cons r rows)
  show ?case
  proof (cases "key r = k")
    case True
    with Cons.prems have "k \<notin> key ` set rows" by auto
    then have "filter (\<lambda>r. key r = k) rows = []" by (auto simp: filter_empty_conv)
    with True show ?thesis by simp
  next
    case False
    with Cons show ?thesis by simp
  qed
qed

lemma uniquePairs_matches:
  assumes "uniquePairs st"
  shows "length (filter (\<lambda>r. wishlist_item_id r = wid \<and> listing_url r = u) (found_listings st)) \<le> 1"
proof -
  have "length (filter (\<lambda>r. (wishlist_item_id r, listing_url r) = (wid, u)) (found_listings st)) \<le> 1"
    using assms unfolding uniquePairs_def by (rule distinct_key_filter)
  then show ?thesis by simp
qed

lemma selectSingle_None:
  assumes "uniquePairs st" and "selectSingle Succeeds st wid u = None"
  shows "filter (\<lambda>r. wishlist_item_id r = wid \<and> listing_url r = u) (found_listings st) = []"
proof -
  let ?m = "filter (\<lambda>r. wishlist_item_id r = wid \<and> listing_url r = u) (found_listings st)"
  have "length ?m \<le> 1" using assms(1) by (rule uniquePairs_matches)
  then consider "?m = []" | r where "?m = [r]" by (cases ?m) auto
  then show ?thesis
  proof cases
    case 1
    then show ?thesis .
  next
    case 2
    with assms(2) show ?thesis by (simp add: selectSingle_def)
  qed
qed

lemma selectSingle_Some:
  "selectSingle oc st wid u = Some r \<Longrightarrow>
   length (filter (\<lambda>r. wishlist_item_id r = wid \<and> listing_url r = u) (found_listings st)) = 1"
  by (auto simp: selectSingle_def split: if_splits list.splits)

lemma selectSingle_one:
  "length (filter (\<lambda>r. wishlist_item_id r = wid \<and> listing_url r = u) (found_listings st)) = 1 \<Longrightarrow>
   \<exists>r. selectSingle Succeeds st wid u = Some r"
  by (auto simp: selectSingle_def split: list.splits)

lemma uniquePairs_insert:
  assumes "uniquePairs st"
    and "filter (\<lambda>r. wishlist_item_id r = wishlist_item_id row \<and> listing_url r = listing_url row)
           (found_listings st) = []"
  shows "uniquePairs (st\<lparr>found_listings := found_listings st @ [row]\<rparr>)"
  using assms by (auto simp: uniquePairs_def filter_empty_conv)

lemma listingLoop_unique:
  assumes "\<forall>i. selectOutcome d i \<noteq> Fails"
  shows "uniquePairs st \<Longrightarrow> uniquePairs (fst (listingLoop d w item i L st n))"
proof (induction L arbitrary: i st n)
  case Nil
  then show ?case by simp
next
  case (Cons l L)
  show ?case
  proof (cases "selectOutcome d i")
    case Throws
    with Cons.prems show ?thesis by simp
  next
    case Fails
    with assms show ?thesis by simp
  next
    case Succeeds
    show ?thesis
    proof (cases "selectSingle Succeeds st (item_id item) (lUrl l)")
      case (Some r)
      with Succeeds Cons show ?thesis by simp
    next
      case None
      have empty: "filter (\<lambda>r. wishlist_item_id r = item_id item \<and> listing_url r = lUrl l)
                     (found_listings st) = []"
        using Cons.prems None by (rule selectSingle_None)
      show ?thesis
      proof (cases "insertOutcome d i")
        case Throws
        with Succeeds None Cons.prems show ?thesis by simp
      next
        case Fails
        with Succeeds None Cons show ?thesis by simp
      next
        case ins: Succeeds
        let ?row = "\<lparr>wishlist_item_id = item_id item, platform = ''ebay'',
                     listing_title = lTitle l, listing_price = lPrice l,
                     listing_url = lUrl l, listing_image_url = lImageUrl l,
                     found_at = toISOString w (dateNow w), notified = False\<rparr>"
        have "uniquePairs (st\<lparr>found_listings := found_listings st @ [?row]\<rparr>)"
          using Cons.prems empty by (intro uniquePairs_insert) simp_all
        then have "uniquePairs (fst (listingLoop d w item (Suc i) L
                     (st\<lparr>found_listings := found_listings st @ [?row]\<rparr>) (Suc n)))"
          by (rule Cons.IH)
        with Succeeds None ins show ?thesis by simp
      qed
    qed
  qed
qed

lemma listingLoop_appends:
  "\<exists>extra. found_listings (fst (listingLoop d w item i L st n)) = found_listings st @ extra"
proof (induction L arbitrary: i st n)
  case Nil
  then show ?case by simp
next
  case (Cons l L)
  have a: "\<exists>extra. found_listings (fst (listingLoop d w item (Suc i) L st n'))
             = found_listings st @ extra" for n'
    by (rule Cons.IH)
  have b: "\<exists>extra. found_listings (fst (listingLoop d w item (Suc i) L
             (st\<lparr>found_listings := found_listings st @ [row]\<rparr>) n'))
             = found_listings st @ extra" for row n'
    using Cons.IH [of "Suc i" "st\<lparr>found_listings := found_listings st @ [row]\<rparr>" n'] by auto
  show ?case
    using a b by (simp split: option.splits outcome.splits)
qed

lemma listingLoop_wishlist:
  "wishlist_items (fst (listingLoop d w item i L st n)) = wishlist_items st"
  by (induction L arbitrary: i st n) (auto split: option.splits outcome.splits)

lemma listingLoop_no_throw:
  assumes "\<forall>i. selectOutcome d i \<noteq> Throws \<and> insertOutcome d i \<noteq> Throws"
  shows "snd (listingLoop d w item i L st n) \<noteq> None"
  using assms by (induction L arbitrary: i st n) (auto split: option.splits outcome.splits)


lemma listingLoop_recorded:
  assumes ok: "\<forall>i. selectOutcome d i = Succeeds \<and> insertOutcome d i = Succeeds"
  shows "uniquePairs st \<Longrightarrow> l \<in> set L \<Longrightarrow>
         length (filter (\<lambda>r. wishlist_item_id r = item_id item \<and> listing_url r = lUrl l)
                   (found_listings (fst (listingLoop d w item i L st n)))) = 1"
proof (induction L arbitrary: i st n)
  case Nil
  then show ?case by simp
next
  case (Cons x L)
  let ?m = "\<lambda>u rows. filter (\<lambda>r. wishlist_item_id r = item_id item \<and> listing_url r = u) rows"
  let ?row = "\<lparr>wishlist_item_id = item_id item, platform = ''ebay'',
               listing_title = lTitle x, listing_price = lPrice x,
               listing_url = lUrl x, listing_image_url = lImageUrl x,
               found_at = toISOString w (dateNow w), notified = False\<rparr>"
  from ok have nf: "\<forall>i. selectOutcome d i \<noteq> Fails" by simp
  obtain st1 n1 where step:
    "listingLoop d w item i (x # L) st n = listingLoop d w item (Suc i) L st1 n1"
    and u1: "uniquePairs st1"
    and c1: "length (?m (lUrl x) (found_listings st1)) = 1"
  proof (cases "selectSingle Succeeds st (item_id item) (lUrl x)")
    case (Some r)
    then have "length (?m (lUrl x) (found_listings st)) = 1" by (rule selectSingle_Some)
    moreover have "listingLoop d w item i (x # L) st n = listingLoop d w item (Suc i) L st n"
      using ok Some by simp
    ultimately show ?thesis using Cons.prems(1) that by blast
  next
    case None
    have empty: "?m (lUrl x) (found_listings st) = []"
      using Cons.prems(1) None by (rule selectSingle_None)
    let ?st1 = "st\<lparr>found_listings := found_listings st @ [?row]\<rparr>"
    have "uniquePairs ?st1"
      using Cons.prems(1) empty by (intro uniquePairs_insert) simp_all
    moreover have "length (?m (lUrl x) (found_listings ?st1)) = 1"
      using empty by simp
    moreover have "listingLoop d w item i (x # L) st n
                 = listingLoop d w item (Suc i) L ?st1 (Suc n)"
      using ok None by simp
    ultimately show ?thesis using that by blast
  qed
  let ?st' = "fst (listingLoop d w item (Suc i) L st1 n1)"
  show ?case
  proof (cases "l \<in> set L")
    case True
    with Cons.IH [OF u1 True] step show ?thesis by simp
  next
    case False
    with Cons.prems(2) have lx: "l = x" by simp
    obtain extra where ex: "found_listings ?st' = found_listings st1 @ extra"
      using listingLoop_appends by blast
    have "uniquePairs ?st'" using nf u1 by (rule listingLoop_unique)
    then have le: "length (?m (lUrl x) (found_listings ?st')) \<le> 1"
      by (rule uniquePairs_matches)
    have "length (?m (lUrl x) (found_listings ?st')) \<ge> 1"
      using c1 ex by simp
    with le step lx show ?thesis by simp
  qed
qed

lemma listingLoop_all_known:
  assumes "\<forall>i. selectOutcome d i = Succeeds"
  shows "\<forall>l \<in> set L. length (filter (\<lambda>r. wishlist_item_id r = item_id item
                                    \<and> listing_url r = lUrl l) (found_listings st)) = 1
         \<Longrightarrow> listingLoop d w item i L st n = (st, Some n)"
proof (induction L arbitrary: i n)
  case Nil
  then show ?case by simp
next
  case (Cons x L)
  then obtain r where "selectSingle Succeeds st (item_id item) (lUrl x) = Some r"
    using selectSingle_one [of "item_id item" "lUrl x" st] by auto
  with assms Cons show ?case by simp
qed

text \<open>
  Claim C6, as amended. Start from a store in which no pair of wish-list item and
  listing URL occurs twice. A run of \<open>processWishlistItem\<close> in which no lookup
  returns an error keeps that uniqueness. If every lookup and every insert of a first
  run succeeds, and a second run on the same item, whose lookups succeed, observes
  the same set of listing URLs, then the second run records 0 new listings and adds
  no row.
\<close>

theorem processWishlistItem_dedup:
  fixes d1 d2 :: db and w1 w2 :: env and f1 f2 :: fetch and st :: store and item :: wishlistItem
  defines "L1 \<equiv> searchEbayListings w1 f1 (the (ebay_search_term item)) (desired_price_max item)"
  defines "L2 \<equiv> searchEbayListings w2 f2 (the (ebay_search_term item)) (desired_price_max item)"
  defines "st1 \<equiv> fst (processWishlistItem d1 w1 f1 st item)"
  assumes uniq: "uniquePairs st"
  shows "((\<forall>i. selectOutcome d1 i \<noteq> Fails) \<longrightarrow> uniquePairs st1)
       \<and> ((\<forall>i. selectOutcome d1 i = Succeeds \<and> insertOutcome d1 i = Succeeds)
            \<and> (\<forall>i. selectOutcome d2 i = Succeeds)
            \<and> lUrl ` set L2 = lUrl ` set L1
          \<longrightarrow> snd (processWishlistItem d2 w2 f2 st1 item) = 0
              \<and> found_listings (fst (processWishlistItem d2 w2 f2 st1 item)) = found_listings st1)"
proof -
  let ?loop1 = "listingLoop d1 w1 item 0 L1 st 0"
  have fl1: "found_listings st1 = (if blankTerm (ebay_search_term item) then found_listings st
                                   else found_listings (fst ?loop1))"
    by (auto simp: st1_def processWishlistItem_def L1_def Let_def touchItem_def
        split: prod.splits option.splits outcome.splits)
  have inv: "uniquePairs st1" if nf: "\<forall>i. selectOutcome d1 i \<noteq> Fails"
  proof -
    have "uniquePairs (fst ?loop1)" using nf uniq by (rule listingLoop_unique)
    with uniq fl1 show ?thesis by (simp add: uniquePairs_def)
  qed
  have idem: "snd (processWishlistItem d2 w2 f2 st1 item) = 0
              \<and> found_listings (fst (processWishlistItem d2 w2 f2 st1 item)) = found_listings st1"
    if ok1: "\<forall>i. selectOutcome d1 i = Succeeds \<and> insertOutcome d1 i = Succeeds"
      and ok2: "\<forall>i. selectOutcome d2 i = Succeeds"
      and same: "lUrl ` set L2 = lUrl ` set L1"
  proof (cases "blankTerm (ebay_search_term item)")
    case True
    then show ?thesis by (simp add: processWishlistItem_def)
  next
    case False
    have known: "\<forall>l \<in> set L2. length (filter (\<lambda>r. wishlist_item_id r = item_id item
                   \<and> listing_url r = lUrl l) (found_listings st1)) = 1"
    proof
      fix l assume "l \<in> set L2"
      with same obtain l' where l': "l' \<in> set L1" "lUrl l' = lUrl l" by (metis imageE imageI)
      have "length (filter (\<lambda>r. wishlist_item_id r = item_id item \<and> listing_url r = lUrl l')
                     (found_listings (fst ?loop1))) = 1"
        using ok1 uniq l'(1) by (rule listingLoop_recorded)
      with l'(2) fl1 False
      show "length (filter (\<lambda>r. wishlist_item_id r = item_id item \<and> listing_url r = lUrl l)
                     (found_listings st1)) = 1"
        by simp
    qed
    have "listingLoop d2 w2 item 0 L2 st1 0 = (st1, Some 0)"
      using ok2 known by (rule listingLoop_all_known)
    with False show ?thesis
      by (simp add: processWishlistItem_def L2_def Let_def touchItem_def split: outcome.splits)
  qed
  from inv idem show ?thesis by blast
qed

text \<open>
  The two synthetic listings of the item share one URL: the first run records 1
  listing, the second run none.
\<close>

theorem processWishlistItem_dedup_witness:
  "uniquePairs store0
   \<and> snd (processWishlistItem dbOk envMock fetchDown store0 bowl) = 1
   \<and> snd (processWishlistItem dbOk envMock fetchDown
            (fst (processWishlistItem dbOk envMock fetchDown store0 bowl)) bowl) = 0
   \<and> uniquePairs (fst (processWishlistItem dbOk envMock fetchDown store0 bowl))"
proof -
  have u: "uniquePairs store0" by (simp add: uniquePairs_def store0_def)
  have ok: "\<forall>i. selectOutcome dbOk i = Succeeds \<and> insertOutcome dbOk i = Succeeds"
    by (simp add: dbOk_def)
  have first: "snd (processWishlistItem dbOk envMock fetchDown store0 bowl) = 1"
    by (simp add: processWishlistItem_def searchEbayListings_def searchEbayListingsTry_def
      getMockEbayData_def blankTerm_def trim_def isWhiteSpace_def selectSingle_def touchItem_def
      Let_def fixture_defs)
  from processWishlistItem_dedup [OF u, of dbOk envMock fetchDown bowl dbOk envMock fetchDown] ok first u
  show ?thesis by simp
qed

text \<open>
  The claim as it was stated fails when the inserts of the first run return an
  error: the first run records nothing, and the second run, on the same listings,
  records 1 new listing. It fails as well when the lookups of the second run return
  an error, which the source does not look at: after a first run that went well, the
  second run records 2 listings and the store holds the same pair three times.
\<close>

theorem processWishlistItem_dedup_counterexample:
  "uniquePairs store0
   \<and> searchEbayListings envMock fetchDown (the (ebay_search_term bowl)) (desired_price_max bowl)
       = getMockEbayData envMock ''jadite bowl'' None
   \<and> snd (processWishlistItem dbInsertFails envMock fetchDown store0 bowl) = 0
   \<and> snd (processWishlistItem dbOk envMock fetchDown
            (fst (processWishlistItem dbInsertFails envMock fetchDown store0 bowl)) bowl) = 1
   \<and> snd (processWishlistItem dbSelectFails envMock fetchDown
            (fst (processWishlistItem dbOk envMock fetchDown store0 bowl)) bowl) = 2
   \<and> \<not> uniquePairs (fst (processWishlistItem dbSelectFails envMock fetchDown
            (fst (processWishlistItem dbOk envMock fetchDown store0 bowl)) bowl))"
  by (simp add: processWishlistItem_def searchEbayListings_def searchEbayListingsTry_def
      getMockEbayData_def blankTerm_def trim_def isWhiteSpace_def selectSingle_def touchItem_def
      uniquePairs_def Let_def fixture_defs)

text \<open>
  Claim C7, as amended. For every wish-list item with a non-blank search term: when no
  call of the store throws and the final update succeeds, whether the inserts
  succeeded or returned errors, the rows of the item get \<open>last_checked_at\<close> and
  \<open>updated_at\<close> set to the current time and the other rows stay; when an exception
  reaches the \<open>catch\<close> block, the wish-list items stay as they were and 0 is returned.
\<close>

theorem processWishlistItem_timestamps:
  fixes d w f st item
  defines "out \<equiv> processWishlistItem d w f st item"
  defines "now \<equiv> toISOString w (dateNow w)"
  assumes nb: "\<not> blankTerm (ebay_search_term item)"
  shows "((\<forall>i. selectOutcome d i \<noteq> Throws \<and> insertOutcome d i \<noteq> Throws)
            \<and> updateOutcome d = Succeeds
          \<longrightarrow> \<not> processingThrows d w f st item
              \<and> wishlist_items (fst out)
                  = map (\<lambda>r. if item_id r = item_id item
                             then r\<lparr>last_checked_at := Some now, updated_at := now\<rparr> else r)
                      (wishlist_items st)
              \<and> (\<forall>r \<in> set (wishlist_items (fst out)).
                    item_id r = item_id item
                    \<longrightarrow> last_checked_at r = Some now \<and> updated_at r = now))
       \<and> (processingThrows d w f st item
          \<longrightarrow> wishlist_items (fst out) = wishlist_items st \<and> snd out = 0)"
proof -
  let ?L = "searchEbayListings w f (the (ebay_search_term item)) (desired_price_max item)"
  let ?loop = "listingLoop d w item 0 ?L st 0"
  have wl: "wishlist_items (fst ?loop) = wishlist_items st" by (rule listingLoop_wishlist)
  have good: "\<not> processingThrows d w f st item
              \<and> wishlist_items (fst out)
                  = map (\<lambda>r. if item_id r = item_id item
                             then r\<lparr>last_checked_at := Some now, updated_at := now\<rparr> else r)
                      (wishlist_items st)
              \<and> (\<forall>r \<in> set (wishlist_items (fst out)).
                    item_id r = item_id item
                    \<longrightarrow> last_checked_at r = Some now \<and> updated_at r = now)"
    if nt: "\<forall>i. selectOutcome d i \<noteq> Throws \<and> insertOutcome d i \<noteq> Throws"
      and up: "updateOutcome d = Succeeds"
  proof -
    have "snd ?loop \<noteq> None" using nt by (rule listingLoop_no_throw)
    then obtain st' k where loop: "?loop = (st', Some k)" by (cases ?loop) auto
    with wl have wl': "wishlist_items st' = wishlist_items st" by simp
    have 1: "\<not> processingThrows d w f st item"
      using loop up by (simp add: processingThrows_def)
    have 2: "wishlist_items (fst out)
                  = map (\<lambda>r. if item_id r = item_id item
                             then r\<lparr>last_checked_at := Some now, updated_at := now\<rparr> else r)
                      (wishlist_items st)"
      using nb loop up wl'
      by (simp add: out_def now_def processWishlistItem_def Let_def touchItem_def)
    from 1 2 show ?thesis by auto
  qed
  have bad: "wishlist_items (fst out) = wishlist_items st \<and> snd out = 0"
    if "processingThrows d w f st item"
    using that nb wl
    by (cases ?loop)
       (auto simp: out_def processingThrows_def processWishlistItem_def Let_def
          split: option.splits outcome.splits)
  from good bad show ?thesis by blast
qed

text \<open>
  With failing inserts the item is still stamped; with a throwing lookup it keeps its
  old \<open>updated_at\<close>.
\<close>

theorem processWishlistItem_timestamps_witness:
  "\<not> blankTerm (ebay_search_term bowl)
   \<and> snd (processWishlistItem dbInsertFails envMock fetchDown store0 bowl) = 0
   \<and> map last_checked_at (wishlist_items
        (fst (processWishlistItem dbInsertFails envMock fetchDown store0 bowl)))
       = [Some ''2024-05-01T00:00:00.000Z'']
   \<and> map updated_at (wishlist_items
        (fst (processWishlistItem dbSelectThrows envMock fetchDown store0 bowl)))
       = [''2024-01-01T00:00:00.000Z'']"
proof -
  have nb: "\<not> blankTerm (ebay_search_term bowl)"
    by (simp add: blankTerm_def bowl_def trim_def isWhiteSpace_def)
  have nt: "\<forall>i. selectOutcome dbInsertFails i \<noteq> Throws \<and> insertOutcome dbInsertFails i \<noteq> Throws"
    by (simp add: dbInsertFails_def dbOk_def)
  have up: "updateOutcome dbInsertFails = Succeeds"
    by (simp add: dbInsertFails_def dbOk_def)
  have cnt: "snd (processWishlistItem dbInsertFails envMock fetchDown store0 bowl) = 0"
    by (simp add: processWishlistItem_def searchEbayListings_def searchEbayListingsTry_def
      getMockEbayData_def blankTerm_def trim_def isWhiteSpace_def selectSingle_def touchItem_def
      Let_def fixture_defs)
  have thr: "processingThrows dbSelectThrows envMock fetchDown store0 bowl"
    by (simp add: processingThrows_def searchEbayListings_def searchEbayListingsTry_def
      getMockEbayData_def blankTerm_def trim_def isWhiteSpace_def
      Let_def fixture_defs)
  from processWishlistItem_timestamps [OF nb, of dbInsertFails envMock fetchDown store0]
       processWishlistItem_timestamps [OF nb, of dbSelectThrows envMock fetchDown store0] nb nt up cnt thr
  show ?thesis by (simp add: store0_def bowl_def envMock_def)
qed

text \<open>
  The claim as it was stated fails when an exception occurs during processing: the
  lookup throws, and \<open>last_checked_at\<close> is not set. Nor is it set when the
  update itself returns an error, which the source does not look at.
\<close>

theorem processWishlistItem_exception_counterexample:
  "\<not> blankTerm (ebay_search_term bowl)
   \<and> processingThrows dbSelectThrows envMock fetchDown store0 bowl
   \<and> map last_checked_at (wishlist_items store0) = [None]
   \<and> map last_checked_at (wishlist_items
        (fst (processWishlistItem dbSelectThrows envMock fetchDown store0 bowl))) = [None]
   \<and> map last_checked_at (wishlist_items
        (fst (processWishlistItem dbUpdateFails envMock fetchDown store0 bowl))) = [None]"
  by (simp add: processWishlistItem_def processingThrows_def searchEbayListings_def
      searchEbayListingsTry_def
      getMockEbayData_def blankTerm_def trim_def isWhiteSpace_def selectSingle_def touchItem_def
      Let_def fixture_defs)

section \<open>Properties of the request handler\<close>

text \<open>
  Claim C9, as amended. For every POST request whose body is a JSON value other than
  \<open>null\<close> and lacks \<open>itemName\<close> or \<open>category\<close>, or gives either as the empty string,
  the handler answers with status 400 and the message that item name and category are
  required. When the body does not parse (no body, or a text that is not JSON) or is
  the JSON value \<open>null\<close>, the handler answers with status 500 and the message that the
  analysis failed. In both cases it requests nothing from the marketplace: no search
  and no analysis take place.
\<close>

theorem serve_missing_fields:
  assumes "reqMethod req = ''POST''"
  shows "(\<forall>b. reqBody req = Body b
             \<and> (bItemName b = None \<or> bItemName b = Some []
                 \<or> bCategory b = None \<or> bCategory b = Some [])
           \<longrightarrow> serve w f req =
                 (\<lparr>status = 400, headers = jsonHeaders,
                   body = ErrorBody ''Item name and category are required'' None\<rparr>, []))
       \<and> (\<forall>msg. reqBody req = BodyThrows msg \<or> reqBody req = BodyNull msg
           \<longrightarrow> serve w f req =
                 (\<lparr>status = 500, headers = jsonHeaders,
                   body = ErrorBody ''Failed to analyze market data'' (Some msg)\<rparr>, []))"
  using assms by (auto simp: serve_def)

text \<open>The body with an empty item name and the category jadite.\<close>

theorem serve_missing_fields_witness:
  "serve envLive fetchSold
     \<lparr>reqMethod = ''POST'',
      reqBody = Body \<lparr>bItemName = Some [], bManufacturer = None, bPattern = None,
                      bCategory = Some ''jadite''\<rparr>\<rparr>
   = (\<lparr>status = 400, headers = jsonHeaders,
       body = ErrorBody ''Item name and category are required'' None\<rparr>, [])
   \<and> status (fst (serve envLive fetchSold
        \<lparr>reqMethod = ''POST'', reqBody = BodyNull ''null has no properties''\<rparr>)) = 500"
  using serve_missing_fields [of "\<lparr>reqMethod = ''POST'',
      reqBody = Body \<lparr>bItemName = Some [], bManufacturer = None, bPattern = None,
                      bCategory = Some ''jadite''\<rparr>\<rparr>" envLive fetchSold]
    serve_missing_fields [of "\<lparr>reqMethod = ''POST'',
      reqBody = BodyNull ''null has no properties''\<rparr>" envLive fetchSold]
  by simp

text \<open>
  The claim as it was stated fails for a POST without a body: \<open>req.json()\<close> rejects,
  the body has no \<open>itemName\<close>, and the answer is 500, not 400.
\<close>

theorem serve_unparsable_body_counterexample:
  "status (fst (serve envLive fetchSold
     \<lparr>reqMethod = ''POST'', reqBody = BodyThrows ''Unexpected end of JSON input''\<rparr>)) = 500
   \<and> status (fst (serve envLive fetchSold
     \<lparr>reqMethod = ''POST'', reqBody = BodyThrows ''Unexpected end of JSON input''\<rparr>)) \<noteq> 400"
  by (simp add: serve_def)

end
